theory Spec2Isabelle
  imports Complex_Main "HOL-Library.Log_Nat"
begin

section \<open>The mortgage calculator of \<open>src/client/pages/Index.tsx\<close>\<close>

text \<open>
  The page component \<open>Index\<close> keeps seven pieces of React state, validates three
  input strings (\<open>validateForm\<close>) and, when they are valid, computes three payment
  figures (\<open>calculateMortgage\<close>).

  Numbers. A JavaScript Number is an IEEE 754 binary64 value. Here a Number is
  \<open>NaN\<close>, one of the two infinities, or a finite value \<open>Fin x\<close>, where \<open>x\<close> is the real
  number the binary64 value stands for. Every arithmetic operator rounds its exact
  result to the nearest binary64 value, ties to even, and overflows to an infinity, as
  the language prescribes (\<open>b64\<close> below). The two zeros are one value \<open>Fin 0\<close>: the
  program compares numbers and divides by 100, by 12, by a positive number of payments
  and by a difference \<open>x - 1\<close>, none of which tells \<open>-0\<close> from \<open>+0\<close>.
\<close>

subsection \<open>Rounding to binary64\<close>

datatype jsnum = NaN | PInf | NInf | Fin real

text \<open>Rounding a real to the nearest integer, a tie going to the even one.\<close>

definition rhe :: "real \<Rightarrow> int" where
  "rhe a = (let f = \<lfloor>a\<rfloor>; d = a - of_int f
            in if d < 1 / 2 then f else if 1 / 2 < d then f + 1
               else if even f then f else f + 1)"

text \<open>
  The binary exponent of \<open>a > 0\<close>, that is the \<open>k\<close> with \<open>2 ^ k \<le> a < 2 ^ (k + 1)\<close>,
  computed from the bit length of an integer.
\<close>

definition ilog2 :: "real \<Rightarrow> int" where
  "ilog2 a = (if 1 \<le> a then bitlen \<lfloor>a\<rfloor> - 1 else - bitlen (\<lceil>1 / a\<rceil> - 1))"

text \<open>
  A binary64 value has 53 significant bits and an exponent of its last bit that is at
  least \<open>-1074\<close> (below \<open>2 ^ (-1022)\<close> the values are subnormal); the largest one is
  below \<open>2 ^ 1024\<close>. \<open>round_mag a\<close> is the multiple of the unit in the last place of
  \<open>a > 0\<close> that is nearest to \<open>a\<close>.
\<close>

definition ulp_exp :: "real \<Rightarrow> int" where
  "ulp_exp a = max (ilog2 a - 52) (- 1074)"

definition round_mag :: "real \<Rightarrow> real" where
  "round_mag a = of_int (rhe (a / 2 powi ulp_exp a)) * 2 powi ulp_exp a"

definition b64 :: "real \<Rightarrow> jsnum" where
  "b64 x =
     (if x = 0 then Fin 0
      else if 2 ^ 1024 \<le> round_mag \<bar>x\<bar> then (if 0 < x then PInf else NInf)
      else Fin (if 0 < x then round_mag \<bar>x\<bar> else - round_mag \<bar>x\<bar>))"

subsection \<open>Number values and the operators the page uses\<close>

fun isNaN :: "jsnum \<Rightarrow> bool" where
  "isNaN NaN = True"
| "isNaN _ = False"

fun isFinite :: "jsnum \<Rightarrow> bool" where
  "isFinite (Fin _) = True"
| "isFinite _ = False"

text \<open>\<open>a < b\<close> and \<open>a <= b\<close>: false as soon as one side is \<open>NaN\<close>.\<close>

fun js_lt :: "jsnum \<Rightarrow> jsnum \<Rightarrow> bool" where
  "js_lt NaN _ = False"
| "js_lt _ NaN = False"
| "js_lt PInf _ = False"
| "js_lt _ NInf = False"
| "js_lt NInf _ = True"
| "js_lt _ PInf = True"
| "js_lt (Fin a) (Fin b) = (a < b)"

fun js_le :: "jsnum \<Rightarrow> jsnum \<Rightarrow> bool" where
  "js_le NaN _ = False"
| "js_le _ NaN = False"
| "js_le NInf _ = True"
| "js_le _ PInf = True"
| "js_le PInf _ = False"
| "js_le _ NInf = False"
| "js_le (Fin a) (Fin b) = (a \<le> b)"

text \<open>\<open>a === b\<close> on Numbers: \<open>NaN\<close> equals nothing, itself included.\<close>

definition js_eq :: "jsnum \<Rightarrow> jsnum \<Rightarrow> bool" where
  "js_eq a b = (\<not> isNaN a \<and> \<not> isNaN b \<and> a = b)"

fun js_neg :: "jsnum \<Rightarrow> jsnum" where
  "js_neg NaN = NaN"
| "js_neg PInf = NInf"
| "js_neg NInf = PInf"
| "js_neg (Fin a) = Fin (- a)"

fun js_add :: "jsnum \<Rightarrow> jsnum \<Rightarrow> jsnum" where
  "js_add NaN _ = NaN"
| "js_add _ NaN = NaN"
| "js_add PInf NInf = NaN"
| "js_add NInf PInf = NaN"
| "js_add PInf _ = PInf"
| "js_add _ PInf = PInf"
| "js_add NInf _ = NInf"
| "js_add _ NInf = NInf"
| "js_add (Fin a) (Fin b) = b64 (a + b)"

definition js_sub :: "jsnum \<Rightarrow> jsnum \<Rightarrow> jsnum" where
  "js_sub a b = js_add a (js_neg b)"

text \<open>The infinity whose sign is that of a non-zero real.\<close>

definition inf_of_sign :: "real \<Rightarrow> jsnum" where
  "inf_of_sign a = (if 0 < a then PInf else NInf)"

fun js_mul :: "jsnum \<Rightarrow> jsnum \<Rightarrow> jsnum" where
  "js_mul NaN _ = NaN"
| "js_mul _ NaN = NaN"
| "js_mul PInf PInf = PInf"
| "js_mul PInf NInf = NInf"
| "js_mul NInf PInf = NInf"
| "js_mul NInf NInf = PInf"
| "js_mul PInf (Fin b) = (if b = 0 then NaN else inf_of_sign b)"
| "js_mul NInf (Fin b) = (if b = 0 then NaN else inf_of_sign (- b))"
| "js_mul (Fin a) PInf = (if a = 0 then NaN else inf_of_sign a)"
| "js_mul (Fin a) NInf = (if a = 0 then NaN else inf_of_sign (- a))"
| "js_mul (Fin a) (Fin b) = b64 (a * b)"

text \<open>
  Division never throws: a finite non-zero value over zero is an infinity, zero over
  zero is \<open>NaN\<close>.
\<close>

fun js_div :: "jsnum \<Rightarrow> jsnum \<Rightarrow> jsnum" where
  "js_div NaN _ = NaN"
| "js_div _ NaN = NaN"
| "js_div PInf PInf = NaN"
| "js_div PInf NInf = NaN"
| "js_div NInf PInf = NaN"
| "js_div NInf NInf = NaN"
| "js_div PInf (Fin b) = (if 0 \<le> b then PInf else NInf)"
| "js_div NInf (Fin b) = (if 0 \<le> b then NInf else PInf)"
| "js_div (Fin a) PInf = Fin 0"
| "js_div (Fin a) NInf = Fin 0"
| "js_div (Fin a) (Fin b) =
     (if b = 0 then (if a = 0 then NaN else inf_of_sign a) else b64 (a / b))"

text \<open>\<open>Number.isInteger\<close>: finite and without fractional part.\<close>

fun Number_isInteger :: "jsnum \<Rightarrow> bool" where
  "Number_isInteger (Fin a) = (of_int \<lfloor>a\<rfloor> = a)"
| "Number_isInteger _ = False"

definition is_odd_integer :: "real \<Rightarrow> bool" where
  "is_odd_integer e = (of_int \<lfloor>e\<rfloor> = e \<and> odd \<lfloor>e\<rfloor>)"

text \<open>
  \<open>Math.pow\<close>, case by case in the order of the language definition
  (\<open>Number::exponentiate\<close>). Its last case, a finite non-zero base and a finite
  non-zero exponent, is left to the implementation, which has to return an
  approximation of the power: that case is the parameter \<open>pw\<close>, of which nothing is
  assumed unless a statement says so.
\<close>

fun Math_pow :: "(real \<Rightarrow> real \<Rightarrow> jsnum) \<Rightarrow> jsnum \<Rightarrow> jsnum \<Rightarrow> jsnum" where
  "Math_pow pw _ NaN = NaN"
| "Math_pow pw b (Fin e) =
     (if e = 0 then Fin 1
      else case b of
        NaN \<Rightarrow> NaN
      | PInf \<Rightarrow> (if 0 < e then PInf else Fin 0)
      | NInf \<Rightarrow> (if 0 < e then (if is_odd_integer e then NInf else PInf) else Fin 0)
      | Fin x \<Rightarrow>
          (if x = 0 then (if 0 < e then Fin 0 else PInf)
           else if x < 0 \<and> of_int \<lfloor>e\<rfloor> \<noteq> e then NaN
           else pw x e))"
| "Math_pow pw b PInf =
     (case b of
        NaN \<Rightarrow> NaN
      | PInf \<Rightarrow> PInf
      | NInf \<Rightarrow> PInf
      | Fin x \<Rightarrow>
          (if x = 0 then Fin 0
           else if 1 < \<bar>x\<bar> then PInf
           else if \<bar>x\<bar> = 1 then NaN
           else Fin 0))"
| "Math_pow pw b NInf =
     (case b of
        NaN \<Rightarrow> NaN
      | PInf \<Rightarrow> Fin 0
      | NInf \<Rightarrow> Fin 0
      | Fin x \<Rightarrow>
          (if x = 0 then PInf
           else if 1 < \<bar>x\<bar> then Fin 0
           else if \<bar>x\<bar> = 1 then NaN
           else PInf))"

text \<open>
  \<open>Math.round\<close>: the nearest integer, a tie going towards \<open>+\<infinity>\<close>. The result of
  rounding a binary64 value is a binary64 value, so nothing is rounded a second time.
\<close>

fun Math_round :: "jsnum \<Rightarrow> jsnum" where
  "Math_round (Fin a) = Fin (of_int \<lfloor>a + 1 / 2\<rfloor>)"
| "Math_round x = x"

subsection \<open>\<open>Number(string)\<close>\<close>

text \<open>
  The conversion of a string to a Number follows the grammar of string numeric
  literals: surrounding white space and line terminators are dropped; the empty string
  is \<open>0\<close>; then comes either \<open>Infinity\<close> or a decimal literal, with an optional sign,
  or an unsigned binary, octal or hexadecimal integer; anything else is \<open>NaN\<close>. The
  value of a literal is its exact value rounded to binary64, so a literal that is too
  large becomes an infinity and one that is too small becomes zero.

  A string is held as the bytes of its UTF-8 encoding. The white space of the language
  is the characters U+0009, U+000B, U+000C, U+0020, U+00A0, U+1680, U+2000 to U+200A,
  U+202F, U+205F, U+3000 and U+FEFF, and the line terminators U+000A, U+000D, U+2028
  and U+2029; \<open>ws_seqs\<close> lists their encodings.
\<close>

definition ws_seqs :: "string list" where
  "ws_seqs =
     [[CHR 0x09], [CHR 0x0A], [CHR 0x0B], [CHR 0x0C], [CHR 0x0D], [CHR 0x20],
      [CHR 0xC2, CHR 0xA0],
      [CHR 0xE1, CHR 0x9A, CHR 0x80],
      [CHR 0xE2, CHR 0x80, CHR 0x80], [CHR 0xE2, CHR 0x80, CHR 0x81],
      [CHR 0xE2, CHR 0x80, CHR 0x82], [CHR 0xE2, CHR 0x80, CHR 0x83],
      [CHR 0xE2, CHR 0x80, CHR 0x84], [CHR 0xE2, CHR 0x80, CHR 0x85],
      [CHR 0xE2, CHR 0x80, CHR 0x86], [CHR 0xE2, CHR 0x80, CHR 0x87],
      [CHR 0xE2, CHR 0x80, CHR 0x88], [CHR 0xE2, CHR 0x80, CHR 0x89],
      [CHR 0xE2, CHR 0x80, CHR 0x8A],
      [CHR 0xE2, CHR 0x80, CHR 0xA8], [CHR 0xE2, CHR 0x80, CHR 0xA9],
      [CHR 0xE2, CHR 0x80, CHR 0xAF],
      [CHR 0xE2, CHR 0x81, CHR 0x9F],
      [CHR 0xE3, CHR 0x80, CHR 0x80],
      [CHR 0xEF, CHR 0xBB, CHR 0xBF]]"

text \<open>What is left of \<open>s\<close> after the first of the sequences that it starts with.\<close>

fun strip_one :: "string list \<Rightarrow> string \<Rightarrow> string option" where
  "strip_one [] s = None"
| "strip_one (p # ps) s =
     (if p \<noteq> [] \<and> take (length p) s = p then Some (drop (length p) s) else strip_one ps s)"

function drop_seqs :: "string list \<Rightarrow> string \<Rightarrow> string" where
  "drop_seqs ps s =
     (case strip_one ps s of
        None \<Rightarrow> s
      | Some t \<Rightarrow> (if length t < length s then drop_seqs ps t else s))"
  by pat_completeness auto
termination
  by (relation "measure (\<lambda>(ps, s). length s)") auto

definition trim :: "string \<Rightarrow> string" where
  "trim s = rev (drop_seqs (map rev ws_seqs) (rev (drop_seqs ws_seqs s)))"

definition digit_val :: "int \<Rightarrow> char \<Rightarrow> int option" where
  "digit_val radix c =
     (let k = (of_char c :: int);
          v = (if 48 \<le> k \<and> k \<le> 57 then Some (k - 48)
               else if 97 \<le> k \<and> k \<le> 102 then Some (k - 87)
               else if 65 \<le> k \<and> k \<le> 70 then Some (k - 55)
               else None)
      in case v of None \<Rightarrow> None | Some d \<Rightarrow> (if d < radix then Some d else None))"

definition is_digit :: "int \<Rightarrow> char \<Rightarrow> bool" where
  "is_digit radix c = (digit_val radix c \<noteq> None)"

text \<open>The value of a run of digits, most significant first.\<close>

fun digits_val :: "int \<Rightarrow> int \<Rightarrow> string \<Rightarrow> int" where
  "digits_val radix acc [] = acc"
| "digits_val radix acc (c # cs) =
     digits_val radix (radix * acc + (case digit_val radix c of None \<Rightarrow> 0 | Some d \<Rightarrow> d)) cs"

text \<open>An exponent part after the \<open>e\<close>: an optional sign and at least one digit.\<close>

definition signed_integer :: "string \<Rightarrow> int option" where
  "signed_integer s =
     (let (neg, ds) = (case s of
                         c # t \<Rightarrow> (if c = CHR ''-'' then (True, t)
                                   else if c = CHR ''+'' then (False, t)
                                   else (False, s))
                       | [] \<Rightarrow> (False, s))
      in if ds = [] \<or> \<not> list_all (is_digit 10) ds then None
         else Some (if neg then - digits_val 10 0 ds else digits_val 10 0 ds))"

text \<open>
  The exact value of an unsigned decimal literal: digits, an optional fraction, an
  optional exponent, with a digit before or after the point.
\<close>

definition unsigned_decimal :: "string \<Rightarrow> real option" where
  "unsigned_decimal s =
     (let ip = takeWhile (is_digit 10) s;
          r1 = dropWhile (is_digit 10) s;
          (dot, fp, r2) = (case r1 of
                             c # t \<Rightarrow> (if c = CHR ''.''
                                       then (True, takeWhile (is_digit 10) t,
                                             dropWhile (is_digit 10) t)
                                       else (False, [], r1))
                           | [] \<Rightarrow> (False, [], r1));
          ex = (case r2 of
                  [] \<Rightarrow> Some 0
                | c # t \<Rightarrow> (if c = CHR ''e'' \<or> c = CHR ''E'' then signed_integer t
                            else None))
      in if ip = [] \<and> fp = [] then None
         else case ex of
                None \<Rightarrow> None
              | Some e \<Rightarrow>
                  Some (of_int (digits_val 10 0 (ip @ fp)) * 10 powi (e - int (length fp))))"

definition unsigned_literal :: "string \<Rightarrow> jsnum" where
  "unsigned_literal s =
     (if s = ''Infinity'' then PInf
      else case unsigned_decimal s of None \<Rightarrow> NaN | Some v \<Rightarrow> b64 v)"

definition radix_literal :: "int \<Rightarrow> string \<Rightarrow> jsnum" where
  "radix_literal radix ds =
     (if ds = [] \<or> \<not> list_all (is_digit radix) ds then NaN
      else b64 (of_int (digits_val radix 0 ds)))"

definition Number :: "string \<Rightarrow> jsnum" where
  "Number str =
     (let s = trim str
      in case s of
           [] \<Rightarrow> Fin 0
         | c # t \<Rightarrow>
             (if c = CHR ''+'' then unsigned_literal t
              else if c = CHR ''-'' then js_neg (unsigned_literal t)
              else if c = CHR ''0'' \<and> t \<noteq> [] \<and> (hd t = CHR ''x'' \<or> hd t = CHR ''X'')
                then radix_literal 16 (tl t)
              else if c = CHR ''0'' \<and> t \<noteq> [] \<and> (hd t = CHR ''o'' \<or> hd t = CHR ''O'')
                then radix_literal 8 (tl t)
              else if c = CHR ''0'' \<and> t \<noteq> [] \<and> (hd t = CHR ''b'' \<or> hd t = CHR ''B'')
                then radix_literal 2 (tl t)
              else unsigned_literal s))"

subsection \<open>Types of the page\<close>

datatype MortgageType = Repayment | InterestOnly

record CalculationResult =
  monthlyPayment :: jsnum
  totalPayment :: jsnum
  totalInterest :: jsnum

text \<open>
  \<open>FormErrors\<close> is an object with optional string properties. It is kept as the list
  of its own properties in insertion order, which is what \<open>Object.keys\<close> enumerates.
\<close>

type_synonym FormErrors = "(string \<times> string) list"

fun set_prop :: "string \<Rightarrow> string \<Rightarrow> FormErrors \<Rightarrow> FormErrors" where
  "set_prop k v [] = [(k, v)]"
| "set_prop k v ((k', v') # ps) =
     (if k' = k then (k, v) # ps else (k', v') # set_prop k v ps)"

definition get_prop :: "FormErrors \<Rightarrow> string \<Rightarrow> string option" where
  "get_prop obj k = map_of obj k"

definition Object_keys :: "FormErrors \<Rightarrow> string list" where
  "Object_keys obj = map fst obj"

text \<open>The seven \<open>useState\<close> cells of the component.\<close>

record state =
  loanAmount :: string
  interestRate :: string
  loanTerm :: string
  mortgageType :: MortgageType
  result :: "CalculationResult option"
  errors :: FormErrors
  submitted :: bool

definition initial :: state where
  "initial = \<lparr>loanAmount = [], interestRate = [], loanTerm = [],
              mortgageType = Repayment, result = None, errors = [], submitted = False\<rparr>"

text \<open>
  A handler reads the state of the render it was created in and calls setters; the
  calls take effect, in order, when the handler has returned. A handler is therefore a
  function from the state to the list of setter calls it makes.
\<close>

datatype action =
    SetLoanAmount string
  | SetInterestRate string
  | SetLoanTerm string
  | SetMortgageType MortgageType
  | SetResult "CalculationResult option"
  | SetErrors FormErrors
  | SetSubmitted bool

fun apply_action :: "state \<Rightarrow> action \<Rightarrow> state" where
  "apply_action s (SetLoanAmount v) = s\<lparr>loanAmount := v\<rparr>"
| "apply_action s (SetInterestRate v) = s\<lparr>interestRate := v\<rparr>"
| "apply_action s (SetLoanTerm v) = s\<lparr>loanTerm := v\<rparr>"
| "apply_action s (SetMortgageType v) = s\<lparr>mortgageType := v\<rparr>"
| "apply_action s (SetResult v) = s\<lparr>result := v\<rparr>"
| "apply_action s (SetErrors v) = s\<lparr>errors := v\<rparr>"
| "apply_action s (SetSubmitted v) = s\<lparr>submitted := v\<rparr>"

definition run :: "state \<Rightarrow> action list \<Rightarrow> state" where
  "run s acts = foldl apply_action s acts"

subsection \<open>\<open>validateForm\<close> (lines 38 to 65)\<close>

text \<open>
  \<open>!str\<close> holds of the empty string only. The three blocks run one after the other on
  the same fresh object; the function calls \<open>setErrors\<close> and returns whether the
  object has no key.
\<close>

definition validateForm :: "state \<Rightarrow> action list \<times> bool" where
  "validateForm s =
     (let newErrors0 = [];
          newErrors1 =
            (if loanAmount s = [] then
               set_prop ''loanAmount'' ''Loan amount is required'' newErrors0
             else if isNaN (Number (loanAmount s)) \<or> js_le (Number (loanAmount s)) (Fin 0) then
               set_prop ''loanAmount'' ''Please enter a valid loan amount'' newErrors0
             else newErrors0);
          newErrors2 =
            (if interestRate s = [] then
               set_prop ''interestRate'' ''Interest rate is required'' newErrors1
             else if isNaN (Number (interestRate s)) \<or> js_lt (Number (interestRate s)) (Fin 0) then
               set_prop ''interestRate'' ''Please enter a valid interest rate'' newErrors1
             else newErrors1);
          newErrors3 =
            (if loanTerm s = [] then
               set_prop ''loanTerm'' ''Loan term is required'' newErrors2
             else if isNaN (Number (loanTerm s))
                     \<or> js_le (Number (loanTerm s)) (Fin 0)
                     \<or> \<not> Number_isInteger (Number (loanTerm s)) then
               set_prop ''loanTerm'' ''Please enter a valid loan term in years'' newErrors2
             else newErrors2)
      in ([SetErrors newErrors3], length (Object_keys newErrors3) = 0))"

subsection \<open>The computation of \<open>calculateMortgage\<close> (lines 75 to 106)\<close>

text \<open>Lines 78 and 79.\<close>

definition monthlyRate :: "jsnum \<Rightarrow> jsnum" where
  "monthlyRate annualRate = js_div (js_div annualRate (Fin 100)) (Fin 12)"

definition numberOfPayments :: "jsnum \<Rightarrow> jsnum" where
  "numberOfPayments years = js_mul years (Fin 12)"

text \<open>
  The two operands of the division of lines 89 to 92, for a monthly rate \<open>r\<close> and a
  number of payments \<open>n\<close>.
\<close>

definition annuity_numerator ::
  "(real \<Rightarrow> real \<Rightarrow> jsnum) \<Rightarrow> jsnum \<Rightarrow> jsnum \<Rightarrow> jsnum \<Rightarrow> jsnum" where
  "annuity_numerator pw principal' r n =
     js_mul principal' (js_mul r (Math_pow pw (js_add (Fin 1) r) n))"

definition annuity_denominator :: "(real \<Rightarrow> real \<Rightarrow> jsnum) \<Rightarrow> jsnum \<Rightarrow> jsnum \<Rightarrow> jsnum" where
  "annuity_denominator pw r n = js_sub (Math_pow pw (js_add (Fin 1) r) n) (Fin 1)"

text \<open>
  Lines 81 to 100: the three figures before rounding, as the values of the local
  variables \<open>monthlyPayment\<close>, \<open>totalPayment\<close> and \<open>totalInterest\<close>.
\<close>

definition figures ::
  "(real \<Rightarrow> real \<Rightarrow> jsnum) \<Rightarrow> jsnum \<Rightarrow> jsnum \<Rightarrow> jsnum \<Rightarrow> MortgageType
     \<Rightarrow> jsnum \<times> jsnum \<times> jsnum" where
  "figures pw principal' annualRate years ty =
     (let r = monthlyRate annualRate;
          n = numberOfPayments years
      in case ty of
           Repayment \<Rightarrow>
             (let mp = (if js_eq r (Fin 0) then js_div principal' n
                        else js_div (annuity_numerator pw principal' r n)
                                    (annuity_denominator pw r n));
                  tp = js_mul mp n;
                  ti = js_sub tp principal'
              in (mp, tp, ti))
         | InterestOnly \<Rightarrow>
             (let mp = js_mul principal' r;
                  tp = js_add principal' (js_mul mp n);
                  ti = js_mul mp n
              in (mp, tp, ti)))"

text \<open>Lines 103 to 105: \<open>Math.round(x * 100) / 100\<close>.\<close>

definition round2 :: "jsnum \<Rightarrow> jsnum" where
  "round2 x = js_div (Math_round (js_mul x (Fin 100))) (Fin 100)"

definition calculate ::
  "(real \<Rightarrow> real \<Rightarrow> jsnum) \<Rightarrow> jsnum \<Rightarrow> jsnum \<Rightarrow> jsnum \<Rightarrow> MortgageType
     \<Rightarrow> CalculationResult" where
  "calculate pw principal' annualRate years ty =
     (case figures pw principal' annualRate years ty of
        (mp, tp, ti) \<Rightarrow>
          \<lparr>monthlyPayment = round2 mp, totalPayment = round2 tp, totalInterest = round2 ti\<rparr>)"

subsection \<open>The handlers\<close>

text \<open>
  \<open>calculateMortgage\<close> (lines 67 to 107): when \<open>validateForm\<close> returns false the
  handler sets \<open>submitted\<close> and returns; otherwise it sets \<open>submitted\<close>, converts the
  three strings and stores the rounded figures.
\<close>

definition calculateMortgage :: "(real \<Rightarrow> real \<Rightarrow> jsnum) \<Rightarrow> state \<Rightarrow> action list" where
  "calculateMortgage pw s =
     (case validateForm s of
        (acts, ok) \<Rightarrow>
          (if \<not> ok then acts @ [SetSubmitted True]
           else acts @ [SetSubmitted True]
                @ [SetResult (Some (calculate pw (Number (loanAmount s))
                                      (Number (interestRate s)) (Number (loanTerm s))
                                      (mortgageType s)))]))"

definition handleReset :: "state \<Rightarrow> action list" where
  "handleReset s =
     [SetLoanAmount [], SetInterestRate [], SetLoanTerm [], SetMortgageType Repayment,
      SetResult None, SetErrors [], SetSubmitted False]"

text \<open>
  What the user can do: type into an input, choose a mortgage type, press Calculate or
  Reset. The results panel is rendered exactly when \<open>result\<close> is not null.
\<close>

datatype event =
    ChangeLoanAmount string
  | ChangeInterestRate string
  | ChangeLoanTerm string
  | ChooseMortgageType MortgageType
  | ClickCalculate
  | ClickReset

fun handler :: "(real \<Rightarrow> real \<Rightarrow> jsnum) \<Rightarrow> event \<Rightarrow> state \<Rightarrow> action list" where
  "handler pw (ChangeLoanAmount v) s = [SetLoanAmount v]"
| "handler pw (ChangeInterestRate v) s = [SetInterestRate v]"
| "handler pw (ChangeLoanTerm v) s = [SetLoanTerm v]"
| "handler pw (ChooseMortgageType v) s = [SetMortgageType v]"
| "handler pw ClickCalculate s = calculateMortgage pw s"
| "handler pw ClickReset s = handleReset s"

definition step :: "(real \<Rightarrow> real \<Rightarrow> jsnum) \<Rightarrow> state \<Rightarrow> event \<Rightarrow> state" where
  "step pw s ev = run s (handler pw ev s)"

definition steps :: "(real \<Rightarrow> real \<Rightarrow> jsnum) \<Rightarrow> state \<Rightarrow> event list \<Rightarrow> state" where
  "steps pw s evs = foldl (step pw) s evs"

definition results_shown :: "state \<Rightarrow> bool" where
  "results_shown s = (result s \<noteq> None)"

subsection \<open>The validator field by field\<close>

text \<open>
  The rule of each of the three blocks of \<open>validateForm\<close>, written as a function of
  that field's string alone (that the blocks do not depend on one another is proved
  below), and the specification's interface
  \<open>validate(principalText, rateText, termText)\<close>, which is the object that
  \<open>validateForm\<close> hands to \<open>setErrors\<close>.
\<close>

definition check_loanAmount :: "string \<Rightarrow> string option" where
  "check_loanAmount str =
     (if str = [] then Some ''Loan amount is required''
      else if isNaN (Number str) \<or> js_le (Number str) (Fin 0)
        then Some ''Please enter a valid loan amount''
      else None)"

definition check_interestRate :: "string \<Rightarrow> string option" where
  "check_interestRate str =
     (if str = [] then Some ''Interest rate is required''
      else if isNaN (Number str) \<or> js_lt (Number str) (Fin 0)
        then Some ''Please enter a valid interest rate''
      else None)"

definition check_loanTerm :: "string \<Rightarrow> string option" where
  "check_loanTerm str =
     (if str = [] then Some ''Loan term is required''
      else if isNaN (Number str) \<or> js_le (Number str) (Fin 0)
              \<or> \<not> Number_isInteger (Number str)
        then Some ''Please enter a valid loan term in years''
      else None)"

definition validate :: "string \<Rightarrow> string \<Rightarrow> string \<Rightarrow> FormErrors" where
  "validate principalText rateText termText =
     errors (run (initial\<lparr>loanAmount := principalText, interestRate := rateText,
                           loanTerm := termText\<rparr>)
                 (fst (validateForm (initial\<lparr>loanAmount := principalText,
                                              interestRate := rateText,
                                              loanTerm := termText\<rparr>))))"

text \<open>
  A result that comes from validated input: it is what the computation returns for
  three strings on which the validator reports no error, and some mortgage type.
\<close>

definition from_validated_input :: "(real \<Rightarrow> real \<Rightarrow> jsnum) \<Rightarrow> CalculationResult \<Rightarrow> bool" where
  "from_validated_input pw res =
     (\<exists>p a t ty. validate p a t = []
        \<and> res = calculate pw (Number p) (Number a) (Number t) ty)"

text \<open>
  An order between two results of the same computation that says nothing when one of
  them is \<open>NaN\<close>.
\<close>

definition le_unless_NaN :: "jsnum \<Rightarrow> jsnum \<Rightarrow> bool" where
  "le_unless_NaN a b = (isNaN a \<or> isNaN b \<or> js_le a b)"

text \<open>
  An implementation of the last case of \<open>Math.pow\<close> that returns, for a positive
  base, the correctly rounded power; it is used below as one instance of the parameter.
\<close>

definition pow_rounded :: "real \<Rightarrow> real \<Rightarrow> jsnum" where
  "pow_rounded b e = b64 (b powr e)"

section \<open>Properties\<close>

subsection \<open>Rounding to binary64 is monotone and keeps the sign\<close>

declare drop_seqs.simps [simp del]

lemmas Number_eval = Number_def trim_def ws_seqs_def drop_seqs.simps unsigned_literal_def
  unsigned_decimal_def is_digit_def digit_val_def signed_integer_def radix_literal_def

lemmas b64_eval = b64_def round_mag_def ulp_exp_def ilog2_def rhe_def compute_bitlen

lemma two_powi_neg: "0 \<le> k \<Longrightarrow> (2::real) powi (- k) = 1 / 2 ^ nat k"
  by (simp add: power_int_minus_divide power_int_nonneg_exp)

lemma ilog2_bounds:
  assumes "0 < a"
  shows "2 powi ilog2 a \<le> a" and "a < 2 powi (ilog2 a + 1)"
proof -
  show "2 powi ilog2 a \<le> a"
  proof (cases "1 \<le> a")
    case True
    then have m: "0 < \<lfloor>a\<rfloor>" by linarith
    from bitlen_bounds[OF m] have "2 ^ nat (bitlen \<lfloor>a\<rfloor> - 1) \<le> \<lfloor>a\<rfloor>" ..
    then have "(2::real) ^ nat (bitlen \<lfloor>a\<rfloor> - 1) \<le> of_int \<lfloor>a\<rfloor>"
      by (metis of_int_le_iff of_int_numeral of_int_power)
    also have "\<dots> \<le> a" by simp
    finally have "(2::real) ^ nat (bitlen \<lfloor>a\<rfloor> - 1) \<le> a" .
    moreover have "1 \<le> bitlen \<lfloor>a\<rfloor>" using m by (simp add: bitlen_alt_def)
    ultimately show ?thesis using True by (simp add: ilog2_def power_int_def)
  next
    case False
    with assms have a1: "a < 1" by simp
    define c where "c = \<lceil>1 / a\<rceil>"
    define j where "j = bitlen (c - 1)"
    have "1 < 1 / a" using assms a1 by simp
    then have c2: "2 \<le> c" unfolding c_def by linarith
    then have c1: "0 < c - 1" by simp
    from bitlen_bounds[OF c1] have "c - 1 < 2 ^ nat j" unfolding j_def ..
    then have "c \<le> 2 ^ nat j" by simp
    then have "real_of_int c \<le> 2 ^ nat j"
      by (metis of_int_le_iff of_int_numeral of_int_power)
    moreover have "1 / a \<le> real_of_int c" unfolding c_def by simp
    ultimately have "1 / a \<le> 2 ^ nat j" by linarith
    then have "1 / 2 ^ nat j \<le> a" using assms
      by (metis divide_le_eq mult.commute zero_less_numeral zero_less_power)
    moreover have "0 \<le> j" unfolding j_def by (rule bitlen_nonneg)
    then have "(2::real) powi (- j) = 1 / 2 ^ nat j"
      by (rule two_powi_neg)
    moreover have "ilog2 a = - j" using False by (simp add: ilog2_def c_def j_def)
    ultimately show ?thesis by simp
  qed
  show "a < 2 powi (ilog2 a + 1)"
  proof (cases "1 \<le> a")
    case True
    then have m: "0 < \<lfloor>a\<rfloor>" by linarith
    from bitlen_bounds[OF m] have "\<lfloor>a\<rfloor> < 2 ^ nat (bitlen \<lfloor>a\<rfloor>)" ..
    then have "\<lfloor>a\<rfloor> + 1 \<le> 2 ^ nat (bitlen \<lfloor>a\<rfloor>)" by simp
    then have "real_of_int (\<lfloor>a\<rfloor> + 1) \<le> 2 ^ nat (bitlen \<lfloor>a\<rfloor>)"
      by (metis of_int_le_iff of_int_numeral of_int_power)
    moreover have "a < real_of_int (\<lfloor>a\<rfloor> + 1)" by linarith
    ultimately have "a < 2 ^ nat (bitlen \<lfloor>a\<rfloor>)" by linarith
    moreover have "0 \<le> bitlen \<lfloor>a\<rfloor>" by (rule bitlen_nonneg)
    ultimately show ?thesis using True by (simp add: ilog2_def power_int_def)
  next
    case False
    with assms have a1: "a < 1" by simp
    define c where "c = \<lceil>1 / a\<rceil>"
    define j where "j = bitlen (c - 1)"
    have "1 < 1 / a" using assms a1 by simp
    then have c2: "2 \<le> c" unfolding c_def by linarith
    then have c1: "0 < c - 1" by simp
    have j1: "1 \<le> j" using c1 by (simp add: j_def bitlen_alt_def)
    from bitlen_bounds[OF c1] have "2 ^ nat (j - 1) \<le> c - 1" unfolding j_def ..
    then have "(2::real) ^ nat (j - 1) \<le> real_of_int (c - 1)"
      by (metis of_int_le_iff of_int_numeral of_int_power)
    moreover have "real_of_int (c - 1) < 1 / a" unfolding c_def by linarith
    ultimately have "(2::real) ^ nat (j - 1) < 1 / a" by linarith
    then have l: "a < 1 / 2 ^ nat (j - 1)" using assms
      by (metis less_divide_eq mult.commute zero_less_numeral zero_less_power)
    have p: "(2::real) powi (1 - j) = 1 / 2 ^ nat (j - 1)"
      using two_powi_neg[of "j - 1"] j1 by simp
    have e: "ilog2 a + 1 = 1 - j" using False by (simp add: ilog2_def c_def j_def)
    show ?thesis unfolding e p by (rule l)
  qed
qed

lemma rhe_cases: "rhe a = \<lfloor>a\<rfloor> \<or> rhe a = \<lfloor>a\<rfloor> + 1"
  by (simp add: rhe_def Let_def)

lemma rhe_of_int [simp]: "rhe (of_int k) = k"
  by (simp add: rhe_def)

lemma rhe_mono:
  assumes "a \<le> b"
  shows "rhe a \<le> rhe b"
proof (cases "\<lfloor>a\<rfloor> = \<lfloor>b\<rfloor>")
  case True
  have "a - of_int \<lfloor>a\<rfloor> \<le> b - of_int \<lfloor>b\<rfloor>" using assms True by simp
  then show ?thesis unfolding rhe_def Let_def True by auto
next
  case False
  with assms have "\<lfloor>a\<rfloor> < \<lfloor>b\<rfloor>" by (metis floor_mono order_le_less)
  moreover have "rhe a \<le> \<lfloor>a\<rfloor> + 1" using rhe_cases[of a] by auto
  moreover have "\<lfloor>b\<rfloor> \<le> rhe b" using rhe_cases[of b] by auto
  ultimately show ?thesis by linarith
qed

lemma rhe_ge: "of_int k \<le> a \<Longrightarrow> k \<le> rhe a"
  using rhe_mono[of "of_int k" a] by simp

lemma rhe_le: "a \<le> of_int k \<Longrightarrow> rhe a \<le> k"
  using rhe_mono[of a "of_int k"] by simp

lemma ilog2_mono:
  assumes "0 < a" and "a \<le> b"
  shows "ilog2 a \<le> ilog2 b"
proof (rule ccontr)
  assume "\<not> ilog2 a \<le> ilog2 b"
  then have "ilog2 b + 1 \<le> ilog2 a" by simp
  then have "(2::real) powi (ilog2 b + 1) \<le> 2 powi ilog2 a"
    by (intro power_int_increasing) simp_all
  moreover have "b < 2 powi (ilog2 b + 1)" using assms by (intro ilog2_bounds) simp
  moreover have "2 powi ilog2 a \<le> a" using assms by (intro ilog2_bounds)
  ultimately show False using assms by linarith
qed

lemma ulp_exp_mono: "0 < a \<Longrightarrow> a \<le> b \<Longrightarrow> ulp_exp a \<le> ulp_exp b"
  unfolding ulp_exp_def using ilog2_mono[of a b] by simp

lemma scaled_less:
  assumes "0 < a"
  shows "a / 2 powi ulp_exp a < 2 ^ 53"
proof -
  have "a < 2 powi (ilog2 a + 1)" using assms by (rule ilog2_bounds)
  also have "\<dots> \<le> 2 powi (ulp_exp a + 53)"
    unfolding ulp_exp_def by (intro power_int_increasing) simp_all
  also have "\<dots> = 2 powi ulp_exp a * 2 ^ 53"
    by (simp add: power_int_add)
  finally show ?thesis by (simp add: field_simps)
qed

lemma round_mag_nonneg:
  assumes "0 \<le> a"
  shows "0 \<le> round_mag a"
proof -
  from assms have "0 \<le> a / 2 powi ulp_exp a" by simp
  then have "0 \<le> rhe (a / 2 powi ulp_exp a)" using rhe_ge[of 0] by simp
  then show ?thesis unfolding round_mag_def by simp
qed

lemma round_mag_le_top:
  assumes "0 < a"
  shows "round_mag a \<le> 2 powi (ulp_exp a + 53)"
proof -
  have "a / 2 powi ulp_exp a \<le> of_int (2 ^ 53)" using scaled_less[OF assms] by simp
  then have "rhe (a / 2 powi ulp_exp a) \<le> 2 ^ 53" by (rule rhe_le)
  then have "real_of_int (rhe (a / 2 powi ulp_exp a)) \<le> 2 ^ 53"
    by (metis of_int_le_iff of_int_numeral of_int_power)
  then have "round_mag a \<le> 2 ^ 53 * 2 powi ulp_exp a"
    unfolding round_mag_def by (intro mult_right_mono) simp_all
  then show ?thesis by (simp add: power_int_add mult.commute)
qed

lemma round_mag_ge_bottom:
  assumes "0 < a" and "- 1074 < ulp_exp a"
  shows "2 powi (ulp_exp a + 52) \<le> round_mag a"
proof -
  from assms(2) have q: "ulp_exp a = ilog2 a - 52" unfolding ulp_exp_def by simp
  have "2 powi ilog2 a \<le> a" using assms(1) by (rule ilog2_bounds)
  then have "2 powi (ulp_exp a + 52) \<le> a" by (simp add: q)
  then have "2 powi ulp_exp a * 2 ^ 52 \<le> a" by (simp add: power_int_add)
  then have "of_int (2 ^ 52) \<le> a / 2 powi ulp_exp a" by (simp add: field_simps)
  then have "2 ^ 52 \<le> rhe (a / 2 powi ulp_exp a)" by (rule rhe_ge)
  then have "2 ^ 52 \<le> real_of_int (rhe (a / 2 powi ulp_exp a))"
    by (metis of_int_le_iff of_int_numeral of_int_power)
  then have "2 ^ 52 * 2 powi ulp_exp a \<le> round_mag a"
    unfolding round_mag_def by (intro mult_right_mono) simp_all
  then show ?thesis by (simp add: power_int_add mult.commute)
qed

text \<open>
  Two arguments with the same exponent are rounded on the same grid; otherwise a power
  of two, which is on both grids, lies between them.
\<close>

lemma round_mag_mono:
  assumes "0 < a" and "a \<le> b"
  shows "round_mag a \<le> round_mag b"
proof (cases "ulp_exp a = ulp_exp b")
  case True
  have "a / 2 powi ulp_exp b \<le> b / 2 powi ulp_exp b"
    using assms by (intro divide_right_mono) simp_all
  then have "rhe (a / 2 powi ulp_exp b) \<le> rhe (b / 2 powi ulp_exp b)" by (rule rhe_mono)
  then show ?thesis unfolding round_mag_def True
    by (intro mult_right_mono) simp_all
next
  case False
  with ulp_exp_mono[OF assms] have lt: "ulp_exp a + 1 \<le> ulp_exp b" by simp
  have b: "0 < b" using assms by simp
  have "- 1074 \<le> ulp_exp a" unfolding ulp_exp_def by simp
  with lt have "- 1074 < ulp_exp b" by simp
  from round_mag_ge_bottom[OF b this] have "2 powi (ulp_exp b + 52) \<le> round_mag b" .
  moreover have "(2::real) powi (ulp_exp a + 53) \<le> 2 powi (ulp_exp b + 52)"
    using lt by (intro power_int_increasing) simp_all
  moreover note round_mag_le_top[OF assms(1)]
  ultimately show ?thesis by linarith
qed

lemma b64_not_NaN [simp]: "b64 x \<noteq> NaN"
  by (simp add: b64_def)

lemma b64_0 [simp]: "b64 0 = Fin 0"
  by (simp add: b64_def)

lemma b64_nonneg: "0 \<le> x \<Longrightarrow> js_le (Fin 0) (b64 x)"
  using round_mag_nonneg[of "\<bar>x\<bar>"] by (simp add: b64_def)

lemma b64_nonpos: "x \<le> 0 \<Longrightarrow> js_le (b64 x) (Fin 0)"
  using round_mag_nonneg[of "\<bar>x\<bar>"] by (simp add: b64_def)

lemma js_le_trans: "js_le a b \<Longrightarrow> js_le b c \<Longrightarrow> js_le a c"
  by (cases a; cases b; cases c) simp_all

lemma b64_mono:
  assumes "x \<le> y"
  shows "js_le (b64 x) (b64 y)"
proof -
  consider "x \<le> 0" "0 \<le> y" | "0 < x" | "y < 0" by linarith
  then show ?thesis
  proof cases
    case 1
    from b64_nonpos[OF 1(1)] b64_nonneg[OF 1(2)] show ?thesis by (rule js_le_trans)
  next
    case 2
    with assms have y: "0 < y" by simp
    from round_mag_mono[of x y] 2 assms have "round_mag x \<le> round_mag y" by simp
    with 2 y show ?thesis by (simp add: b64_def)
  next
    case 3
    with assms have x: "x < 0" by simp
    from round_mag_mono[of "- y" "- x"] 3 assms have "round_mag (- y) \<le> round_mag (- x)" by simp
    with 3 x show ?thesis by (simp add: b64_def)
  qed
qed

lemma b64_small_values:
  "b64 1 = Fin 1" "b64 12 = Fin 12" "b64 100 = Fin 100"
  by (simp_all add: b64_eval)

subsection \<open>Order and sign through the operators\<close>

lemma js_le_refl_iff [simp]: "js_le x x \<longleftrightarrow> \<not> isNaN x"
  by (cases x) simp_all

lemma not_js_lt_iff: "\<not> js_lt x (Fin 0) \<longleftrightarrow> isNaN x \<or> js_le (Fin 0) x"
  by (cases x) auto

lemma le_unless_NaN_not_lt: "le_unless_NaN a b \<Longrightarrow> \<not> js_lt b a"
  by (cases a; cases b) (auto simp: le_unless_NaN_def)

lemma js_le_imp_le_unless_NaN: "js_le a b \<Longrightarrow> le_unless_NaN a b"
  by (simp add: le_unless_NaN_def)

lemma div_const_nonneg:
  assumes "js_le (Fin 0) x" and "0 < c"
  shows "js_le (Fin 0) (js_div x (Fin c))"
proof (cases x)
  case (Fin v)
  with assms have "0 \<le> v / c" by simp
  from b64_nonneg[OF this] Fin assms(2) show ?thesis by simp
qed (use assms in simp_all)

lemma mul_const_nonneg:
  assumes "js_le (Fin 0) x" and "0 < c"
  shows "js_le (Fin 0) (js_mul x (Fin c))"
proof (cases x)
  case (Fin v)
  with assms have "0 \<le> v * c" by simp
  from b64_nonneg[OF this] Fin show ?thesis by simp
qed (use assms in \<open>simp_all add: inf_of_sign_def\<close>)

lemma mul_pos_nonneg:
  assumes "0 < p" and "js_le (Fin 0) x"
  shows "js_le (Fin 0) (js_mul (Fin p) x)"
proof (cases x)
  case (Fin v)
  with assms have "0 \<le> p * v" by simp
  from b64_nonneg[OF this] Fin show ?thesis by simp
qed (use assms in \<open>simp_all add: inf_of_sign_def\<close>)

lemma div_const_mono:
  assumes "js_le x y" and "0 < c"
  shows "js_le (js_div x (Fin c)) (js_div y (Fin c))"
proof (cases x; cases y)
  fix u v assume "x = Fin u" "y = Fin v"
  with assms have "u / c \<le> v / c" by (simp add: divide_right_mono)
  from b64_mono[OF this] \<open>x = Fin u\<close> \<open>y = Fin v\<close> assms(2) show ?thesis by simp
next
  fix u assume "x = Fin u" "y = PInf"
  then show ?thesis using assms(2) by (cases "b64 (u / c)") simp_all
next
  fix v assume "x = NInf" "y = Fin v"
  then show ?thesis using assms(2) by (cases "b64 (v / c)") simp_all
qed (use assms in simp_all)

lemma mul_const_mono:
  assumes "js_le x y" and "0 < c"
  shows "js_le (js_mul x (Fin c)) (js_mul y (Fin c))"
proof (cases x; cases y)
  fix u v assume "x = Fin u" "y = Fin v"
  with assms have "u * c \<le> v * c" by (simp add: mult_right_mono)
  from b64_mono[OF this] \<open>x = Fin u\<close> \<open>y = Fin v\<close> show ?thesis by simp
next
  fix u assume "x = Fin u" "y = PInf"
  then show ?thesis using assms(2) by (cases "b64 (u * c)") (simp_all add: inf_of_sign_def)
next
  fix v assume "x = NInf" "y = Fin v"
  then show ?thesis using assms(2) by (cases "b64 (v * c)") (simp_all add: inf_of_sign_def)
qed (use assms in \<open>simp_all add: inf_of_sign_def\<close>)

lemma Math_round_mono: "js_le x y \<Longrightarrow> js_le (Math_round x) (Math_round y)"
  by (cases x; cases y) (simp_all add: floor_mono)

lemma Math_round_nonneg: "js_le (Fin 0) x \<Longrightarrow> js_le (Fin 0) (Math_round x)"
  by (cases x) simp_all

lemma round2_mono: "js_le x y \<Longrightarrow> js_le (round2 x) (round2 y)"
  unfolding round2_def by (intro div_const_mono Math_round_mono mul_const_mono) simp_all

lemma round2_nonneg: "js_le (Fin 0) x \<Longrightarrow> js_le (Fin 0) (round2 x)"
  unfolding round2_def by (intro div_const_nonneg Math_round_nonneg mul_const_nonneg) simp_all

lemma round2_NaN [simp]: "round2 NaN = NaN"
  by (simp add: round2_def)

lemma round2_le_unless_NaN: "le_unless_NaN x y \<Longrightarrow> le_unless_NaN (round2 x) (round2 y)"
  unfolding le_unless_NaN_def using round2_mono[of x y] by (cases x; cases y) auto

lemma round2_never_negative: "\<not> js_lt x (Fin 0) \<Longrightarrow> \<not> js_lt (round2 x) (Fin 0)"
  unfolding not_js_lt_iff using round2_nonneg[of x] by (cases x) auto

subsection \<open>The validator\<close>

lemma Number_examples:
  "Number ''0'' = Fin 0"
  "Number ''1'' = Fin 1"
  "Number ''6.5'' = Fin (65 / 10)"
  "Number ''30'' = Fin 30"
  "Number ''-1'' = Fin (- 1)"
  "Number ''2.5'' = Fin (25 / 10)"
  "Number ''abc'' = NaN"
  "Number ''100000'' = Fin 100000"
  "Number ''120000'' = Fin 120000"
  "Number ''250000'' = Fin 250000"
  "Number ''99999'' = Fin 99999"
  "Number ''10'' = Fin 10"
  by (simp_all add: Number_eval b64_eval)

lemma validateForm_fields:
  "\<exists>e. validateForm s = ([SetErrors e], e = [])
     \<and> get_prop e ''loanAmount'' = check_loanAmount (loanAmount s)
     \<and> get_prop e ''interestRate'' = check_interestRate (interestRate s)
     \<and> get_prop e ''loanTerm'' = check_loanTerm (loanTerm s)
     \<and> set (Object_keys e) \<subseteq> {''loanAmount'', ''interestRate'', ''loanTerm''}
     \<and> (e = [] \<longleftrightarrow> check_loanAmount (loanAmount s) = None
                  \<and> check_interestRate (interestRate s) = None
                  \<and> check_loanTerm (loanTerm s) = None)"
  by (simp add: validateForm_def check_loanAmount_def check_interestRate_def check_loanTerm_def
        get_prop_def Object_keys_def)

lemma validateForm_strings:
  "validateForm s = validateForm (initial\<lparr>loanAmount := loanAmount s,
     interestRate := interestRate s, loanTerm := loanTerm s\<rparr>)"
  by (simp add: validateForm_def)

lemma validate_fields:
  "get_prop (validate p r t) ''loanAmount'' = check_loanAmount p"
  "get_prop (validate p r t) ''interestRate'' = check_interestRate r"
  "get_prop (validate p r t) ''loanTerm'' = check_loanTerm t"
proof -
  define s where "s = initial\<lparr>loanAmount := p, interestRate := r, loanTerm := t\<rparr>"
  from validateForm_fields[of s] obtain e where
    v: "validateForm s = ([SetErrors e], e = [])"
    and g: "get_prop e ''loanAmount'' = check_loanAmount (loanAmount s)"
      "get_prop e ''interestRate'' = check_interestRate (interestRate s)"
      "get_prop e ''loanTerm'' = check_loanTerm (loanTerm s)"
    by blast
  have "validate p r t = e"
    unfolding validate_def s_def[symmetric] v by (simp add: run_def)
  with g show "get_prop (validate p r t) ''loanAmount'' = check_loanAmount p"
    "get_prop (validate p r t) ''interestRate'' = check_interestRate r"
    "get_prop (validate p r t) ''loanTerm'' = check_loanTerm t"
    by (simp_all add: s_def)
qed

lemma validateForm_validate:
  "validateForm s =
     ([SetErrors (validate (loanAmount s) (interestRate s) (loanTerm s))],
      validate (loanAmount s) (interestRate s) (loanTerm s) = [])"
proof -
  define s' where "s' = initial\<lparr>loanAmount := loanAmount s,
     interestRate := interestRate s, loanTerm := loanTerm s\<rparr>"
  from validateForm_fields[of s'] obtain e where
    v: "validateForm s' = ([SetErrors e], e = [])" by blast
  have "validate (loanAmount s) (interestRate s) (loanTerm s) = e"
    unfolding validate_def s'_def[symmetric] v by (simp add: run_def)
  with v validateForm_strings[of s] show ?thesis by (simp add: s'_def)
qed

text \<open>The validator accepts exactly when each field's own rule accepts.\<close>

lemma validate_empty_iff:
  "validate p r t = [] \<longleftrightarrow>
     check_loanAmount p = None \<and> check_interestRate r = None \<and> check_loanTerm t = None"
proof -
  define s where "s = initial\<lparr>loanAmount := p, interestRate := r, loanTerm := t\<rparr>"
  from validateForm_fields[of s] obtain e where
    v: "validateForm s = ([SetErrors e], e = [])"
    and i: "e = [] \<longleftrightarrow> check_loanAmount (loanAmount s) = None
                  \<and> check_interestRate (interestRate s) = None
                  \<and> check_loanTerm (loanTerm s) = None"
    by blast
  have "validate p r t = e"
    unfolding validate_def s_def[symmetric] v by (simp add: run_def)
  with i show ?thesis by (simp add: s_def)
qed

text \<open>
  C7. For every state, that is for every triple of input strings, \<open>validateForm\<close>
  returns: it makes the single call \<open>setErrors(e)\<close> and its result is true exactly
  when \<open>e\<close> has no key. Each of the three keys of \<open>e\<close> is decided by its own field's
  rule alone, whatever the other two fields hold, and \<open>e\<close> has no other key. The call
  changes no state but \<open>errors\<close>: the three input strings are left as typed.
\<close>

theorem C7_validator_total_independent:
  "\<exists>e. validateForm s = ([SetErrors e], e = [])
     \<and> get_prop e ''loanAmount'' = check_loanAmount (loanAmount s)
     \<and> get_prop e ''interestRate'' = check_interestRate (interestRate s)
     \<and> get_prop e ''loanTerm'' = check_loanTerm (loanTerm s)
     \<and> set (Object_keys e) \<subseteq> {''loanAmount'', ''interestRate'', ''loanTerm''}
     \<and> (e = [] \<longleftrightarrow> check_loanAmount (loanAmount s) = None
                  \<and> check_interestRate (interestRate s) = None
                  \<and> check_loanTerm (loanTerm s) = None)
     \<and> run s (fst (validateForm s)) = s\<lparr>errors := e\<rparr>"
proof -
  from validateForm_fields[of s] obtain e where
    v: "validateForm s = ([SetErrors e], e = [])"
    and r: "get_prop e ''loanAmount'' = check_loanAmount (loanAmount s)"
      "get_prop e ''interestRate'' = check_interestRate (interestRate s)"
      "get_prop e ''loanTerm'' = check_loanTerm (loanTerm s)"
      "set (Object_keys e) \<subseteq> {''loanAmount'', ''interestRate'', ''loanTerm''}"
      "e = [] \<longleftrightarrow> check_loanAmount (loanAmount s) = None
                  \<and> check_interestRate (interestRate s) = None
                  \<and> check_loanTerm (loanTerm s) = None"
    by blast
  have "run s (fst (validateForm s)) = s\<lparr>errors := e\<rparr>"
    unfolding v by (simp add: run_def)
  with v r show ?thesis by blast
qed

theorem C7_validator_total_independent_witness:
  "validateForm (initial\<lparr>loanAmount := ''abc'', interestRate := ''-1'', loanTerm := ''2.5''\<rparr>)
     = ([SetErrors [(''loanAmount'', ''Please enter a valid loan amount''),
                    (''interestRate'', ''Please enter a valid interest rate''),
                    (''loanTerm'', ''Please enter a valid loan term in years'')]], False)
   \<and> check_loanAmount ''abc'' = Some ''Please enter a valid loan amount''
   \<and> check_interestRate ''-1'' = Some ''Please enter a valid interest rate''
   \<and> check_loanTerm ''2.5'' = Some ''Please enter a valid loan term in years''"
proof -
  define s where "s = initial\<lparr>loanAmount := ''abc'', interestRate := ''-1'', loanTerm := ''2.5''\<rparr>"
  have c: "check_loanAmount ''abc'' = Some ''Please enter a valid loan amount''"
      "check_interestRate ''-1'' = Some ''Please enter a valid interest rate''"
      "check_loanTerm ''2.5'' = Some ''Please enter a valid loan term in years''"
    by (simp_all add: check_loanAmount_def check_interestRate_def check_loanTerm_def
          Number_examples)
  have v: "validateForm s
     = ([SetErrors [(''loanAmount'', ''Please enter a valid loan amount''),
                    (''interestRate'', ''Please enter a valid interest rate''),
                    (''loanTerm'', ''Please enter a valid loan term in years'')]], False)"
    by (simp add: s_def validateForm_def initial_def Object_keys_def Number_examples)
  from C7_validator_total_independent[of s] obtain e where
    "validateForm s = ([SetErrors e], e = [])" by blast
  with v c show ?thesis unfolding s_def by simp
qed

text \<open>
  C8. The rules field by field. An empty principal string gives exactly
  \<open>Loan amount is required\<close>; a non-empty one that is not a number, or is not
  positive, gives \<open>Please enter a valid loan amount\<close>. The rate \<open>-1\<close> is rejected
  and the rate \<open>0\<close> is accepted. A non-empty term that is not a number, is not
  positive or is not an integer is rejected, and so is \<open>2.5\<close>. For an empty principal
  with rate \<open>6.5\<close> and term \<open>30\<close> the error object has the one key of the principal.
\<close>

theorem C8_field_rules:
  "get_prop (validate [] r t) ''loanAmount'' = Some ''Loan amount is required''
   \<and> (p \<noteq> [] \<and> (isNaN (Number p) \<or> js_le (Number p) (Fin 0)) \<longrightarrow>
        get_prop (validate p r t) ''loanAmount'' = Some ''Please enter a valid loan amount'')
   \<and> (p \<noteq> [] \<and> \<not> isNaN (Number p) \<and> \<not> js_le (Number p) (Fin 0) \<longrightarrow>
        get_prop (validate p r t) ''loanAmount'' = None)
   \<and> (r \<noteq> [] \<and> (isNaN (Number r) \<or> js_lt (Number r) (Fin 0)) \<longrightarrow>
        get_prop (validate p r t) ''interestRate'' = Some ''Please enter a valid interest rate'')
   \<and> (r \<noteq> [] \<and> \<not> isNaN (Number r) \<and> \<not> js_lt (Number r) (Fin 0) \<longrightarrow>
        get_prop (validate p r t) ''interestRate'' = None)
   \<and> get_prop (validate p ''-1'' t) ''interestRate'' = Some ''Please enter a valid interest rate''
   \<and> get_prop (validate p ''0'' t) ''interestRate'' = None
   \<and> (t \<noteq> [] \<and> (isNaN (Number t) \<or> js_le (Number t) (Fin 0)
                    \<or> \<not> Number_isInteger (Number t)) \<longrightarrow>
        get_prop (validate p r t) ''loanTerm'' = Some ''Please enter a valid loan term in years'')
   \<and> (t \<noteq> [] \<and> \<not> isNaN (Number t) \<and> \<not> js_le (Number t) (Fin 0)
         \<and> Number_isInteger (Number t) \<longrightarrow>
        get_prop (validate p r t) ''loanTerm'' = None)
   \<and> get_prop (validate p r ''2.5'') ''loanTerm'' = Some ''Please enter a valid loan term in years''
   \<and> get_prop (validate p r ''abc'') ''loanTerm'' = Some ''Please enter a valid loan term in years''
   \<and> get_prop (validate ''abc'' r t) ''loanAmount'' = Some ''Please enter a valid loan amount''
   \<and> validate [] ''6.5'' ''30'' = [(''loanAmount'', ''Loan amount is required'')]
   \<and> Object_keys (validate [] ''6.5'' ''30'') = [''loanAmount'']"
proof -
  have e: "validate [] ''6.5'' ''30'' = [(''loanAmount'', ''Loan amount is required'')]"
    by (simp add: validate_def validateForm_def initial_def run_def Object_keys_def
          Number_examples)
  show ?thesis
    unfolding validate_fields e
    by (simp add: check_loanAmount_def check_interestRate_def check_loanTerm_def
          Number_examples Object_keys_def)
qed

theorem C8_field_rules_witness:
  "''0'' \<noteq> [] \<and> js_le (Number ''0'') (Fin 0)
   \<and> get_prop (validate ''0'' ''6.5'' ''30'') ''loanAmount''
        = Some ''Please enter a valid loan amount''
   \<and> ''-1'' \<noteq> [] \<and> js_le (Number ''-1'') (Fin 0)
   \<and> get_prop (validate ''0'' ''6.5'' ''-1'') ''loanTerm''
        = Some ''Please enter a valid loan term in years''
   \<and> ''10'' \<noteq> [] \<and> \<not> isNaN (Number ''10'') \<and> \<not> js_le (Number ''10'') (Fin 0)
   \<and> get_prop (validate ''10'' ''6.5'' ''-1'') ''loanAmount'' = None"
proof -
  from C8_field_rules[of "''6.5''" "''30''" "''0''"]
       C8_field_rules[of "''6.5''" "''-1''" "''0''"]
       C8_field_rules[of "''6.5''" "''-1''" "''10''"]
  show ?thesis by (simp add: Number_examples)
qed

subsection \<open>The Calculate action\<close>

lemma calculateMortgage_invalid:
  assumes "validate (loanAmount s) (interestRate s) (loanTerm s) \<noteq> []"
  shows "calculateMortgage pw s =
    [SetErrors (validate (loanAmount s) (interestRate s) (loanTerm s)), SetSubmitted True]"
  using assms by (simp add: calculateMortgage_def validateForm_validate)

lemma calculateMortgage_valid:
  assumes "validate (loanAmount s) (interestRate s) (loanTerm s) = []"
  shows "calculateMortgage pw s =
    [SetErrors [], SetSubmitted True,
     SetResult (Some (calculate pw (Number (loanAmount s)) (Number (interestRate s))
                                (Number (loanTerm s)) (mortgageType s)))]"
  using assms by (simp add: calculateMortgage_def validateForm_validate)

lemma step_preserves_from_validated:
  assumes "\<forall>res. result s = Some res \<longrightarrow> from_validated_input pw res"
  shows "\<forall>res. result (step pw s ev) = Some res \<longrightarrow> from_validated_input pw res"
proof (cases ev)
  case ClickCalculate
  show ?thesis
  proof (cases "validate (loanAmount s) (interestRate s) (loanTerm s) = []")
    case True
    have "result (step pw s ev) =
            Some (calculate pw (Number (loanAmount s)) (Number (interestRate s))
                            (Number (loanTerm s)) (mortgageType s))"
      unfolding ClickCalculate step_def handler.simps calculateMortgage_valid[OF True]
      by (simp add: run_def)
    with True show ?thesis unfolding from_validated_input_def by auto
  next
    case False
    have "result (step pw s ev) = result s"
      unfolding ClickCalculate step_def handler.simps calculateMortgage_invalid[OF False]
      by (simp add: run_def)
    with assms show ?thesis by simp
  qed
next
  case ClickReset
  have "result (step pw s ev) = None"
    unfolding ClickReset by (simp add: step_def handleReset_def run_def)
  then show ?thesis by simp
qed (use assms in \<open>simp_all add: step_def run_def\<close>)

lemma steps_preserve_from_validated:
  assumes "\<forall>res. result s = Some res \<longrightarrow> from_validated_input pw res"
  shows "\<forall>res. result (steps pw s evs) = Some res \<longrightarrow> from_validated_input pw res"
  using assms
proof (induction evs arbitrary: s)
  case Nil
  then show ?case by (simp add: steps_def)
next
  case (Cons ev evs)
  from step_preserves_from_validated[OF Cons.prems, of ev]
  have "\<forall>res. result (steps pw (step pw s ev) evs) = Some res \<longrightarrow> from_validated_input pw res"
    by (rule Cons.IH)
  then show ?case by (simp add: steps_def)
qed

text \<open>The figures for 120000 at rate 0 over 10 years, in binary64.\<close>

lemma calculate_120000:
  "calculate pw (Fin 120000) (Fin 0) (Fin 10) Repayment
     = \<lparr>monthlyPayment = Fin 1000, totalPayment = Fin 120000, totalInterest = Fin 0\<rparr>"
  by (simp add: calculate_def figures_def monthlyRate_def numberOfPayments_def js_eq_def
        js_sub_def round2_def b64_eval)

text \<open>
  C9. On every Calculate action the handler calls \<open>setResult\<close> exactly when
  \<open>validateForm\<close> returns true, which is exactly when the error object it reports is
  empty; then the stored result is the computation on the three strings as typed.
  When validation fails the handler only sets the errors and \<open>submitted\<close>. Hence in
  every state reachable from the initial one, a stored result comes from strings that
  passed validation with no error. This holds whatever \<open>Math.pow\<close> returns.
\<close>

theorem C9_result_only_from_valid_input:
  "((\<exists>res. SetResult res \<in> set (calculateMortgage pw s)) \<longleftrightarrow> snd (validateForm s))
   \<and> (snd (validateForm s) \<longleftrightarrow> fst (validateForm s) = [SetErrors []])
   \<and> (snd (validateForm s) \<longrightarrow>
        calculateMortgage pw s =
          [SetErrors [], SetSubmitted True,
           SetResult (Some (calculate pw (Number (loanAmount s)) (Number (interestRate s))
                                      (Number (loanTerm s)) (mortgageType s)))])
   \<and> (\<not> snd (validateForm s) \<longrightarrow>
        (\<exists>e. e \<noteq> [] \<and> calculateMortgage pw s = [SetErrors e, SetSubmitted True]))
   \<and> (\<forall>res. result (steps pw initial evs) = Some res \<longrightarrow> from_validated_input pw res)"
proof -
  define e where "e = validate (loanAmount s) (interestRate s) (loanTerm s)"
  have v: "validateForm s = ([SetErrors e], e = [])"
    unfolding e_def by (rule validateForm_validate)
  have inv: "\<forall>res. result (steps pw initial evs) = Some res \<longrightarrow> from_validated_input pw res"
    by (rule steps_preserve_from_validated) (simp add: initial_def)
  show ?thesis
  proof (cases "e = []")
    case True
    from calculateMortgage_valid[of s pw] True inv show ?thesis
      unfolding v e_def[symmetric] by simp
  next
    case False
    from calculateMortgage_invalid[of s pw] False inv show ?thesis
      unfolding v e_def[symmetric] by simp
  qed
qed

theorem C9_result_only_from_valid_input_witness:
  "snd (validateForm (initial\<lparr>loanAmount := ''120000'', interestRate := ''0'',
                                 loanTerm := ''10''\<rparr>))
   \<and> calculateMortgage pow_rounded (initial\<lparr>loanAmount := ''120000'', interestRate := ''0'',
                                     loanTerm := ''10''\<rparr>)
       = [SetErrors [], SetSubmitted True,
          SetResult (Some \<lparr>monthlyPayment = Fin 1000, totalPayment = Fin 120000,
                           totalInterest = Fin 0\<rparr>)]
   \<and> \<not> snd (validateForm (initial\<lparr>loanAmount := ''120000'', interestRate := ''0'',
                                  loanTerm := ''2.5''\<rparr>))
   \<and> (\<forall>res. SetResult res \<notin> set (calculateMortgage pow_rounded
          (initial\<lparr>loanAmount := ''120000'', interestRate := ''0'', loanTerm := ''2.5''\<rparr>)))
   \<and> result (steps pow_rounded initial [ChangeLoanAmount ''120000'', ChangeInterestRate ''0'',
                                ChangeLoanTerm ''10'', ClickCalculate])
       = Some \<lparr>monthlyPayment = Fin 1000, totalPayment = Fin 120000, totalInterest = Fin 0\<rparr>
   \<and> from_validated_input pow_rounded
        \<lparr>monthlyPayment = Fin 1000, totalPayment = Fin 120000, totalInterest = Fin 0\<rparr>"
proof -
  define s1 where "s1 = initial\<lparr>loanAmount := ''120000'', interestRate := ''0'',
                                loanTerm := ''10''\<rparr>"
  define s2 where "s2 = initial\<lparr>loanAmount := ''120000'', interestRate := ''0'',
                                loanTerm := ''2.5''\<rparr>"
  define evs where "evs = [ChangeLoanAmount ''120000'', ChangeInterestRate ''0'',
                           ChangeLoanTerm ''10'', ClickCalculate]"
  note n = Number_examples
  note c = calculate_120000
  have v1: "validateForm s1 = ([SetErrors []], True)"
    by (simp add: s1_def validateForm_def initial_def Object_keys_def n)
  have v2: "\<not> snd (validateForm s2)"
    by (simp add: s2_def validateForm_def initial_def Object_keys_def n)
  have f: "loanAmount s1 = ''120000''" "interestRate s1 = ''0''" "loanTerm s1 = ''10''"
      "mortgageType s1 = Repayment"
    by (simp_all add: s1_def initial_def)
  have st: "steps pow_rounded initial evs = s1\<lparr>errors := [], submitted := True,
      result := Some \<lparr>monthlyPayment = Fin 1000, totalPayment = Fin 120000,
                      totalInterest = Fin 0\<rparr>\<rparr>"
    by (simp add: evs_def steps_def step_def run_def calculateMortgage_def validateForm_def
          Object_keys_def s1_def initial_def n c)
  note t1 = C9_result_only_from_valid_input[of pow_rounded s1 evs]
  note t2 = C9_result_only_from_valid_input[of pow_rounded s2 evs]
  from t1 v1 have a: "calculateMortgage pow_rounded s1 = [SetErrors [], SetSubmitted True,
          SetResult (Some \<lparr>monthlyPayment = Fin 1000, totalPayment = Fin 120000,
                           totalInterest = Fin 0\<rparr>)]"
    by (simp add: f n c)
  from t2 v2 have b: "\<forall>res. SetResult res \<notin> set (calculateMortgage pow_rounded s2)" by blast
  from t1 st have i: "from_validated_input pow_rounded
        \<lparr>monthlyPayment = Fin 1000, totalPayment = Fin 120000, totalInterest = Fin 0\<rparr>"
    by simp
  from v1 v2 a b st i show
    "snd (validateForm (initial\<lparr>loanAmount := ''120000'', interestRate := ''0'',
                                 loanTerm := ''10''\<rparr>))
   \<and> calculateMortgage pow_rounded (initial\<lparr>loanAmount := ''120000'', interestRate := ''0'',
                                     loanTerm := ''10''\<rparr>)
       = [SetErrors [], SetSubmitted True,
          SetResult (Some \<lparr>monthlyPayment = Fin 1000, totalPayment = Fin 120000,
                           totalInterest = Fin 0\<rparr>)]
   \<and> \<not> snd (validateForm (initial\<lparr>loanAmount := ''120000'', interestRate := ''0'',
                                  loanTerm := ''2.5''\<rparr>))
   \<and> (\<forall>res. SetResult res \<notin> set (calculateMortgage pow_rounded
          (initial\<lparr>loanAmount := ''120000'', interestRate := ''0'', loanTerm := ''2.5''\<rparr>)))
   \<and> result (steps pow_rounded initial [ChangeLoanAmount ''120000'', ChangeInterestRate ''0'',
                                ChangeLoanTerm ''10'', ClickCalculate])
       = Some \<lparr>monthlyPayment = Fin 1000, totalPayment = Fin 120000, totalInterest = Fin 0\<rparr>
   \<and> from_validated_input pow_rounded
        \<lparr>monthlyPayment = Fin 1000, totalPayment = Fin 120000, totalInterest = Fin 0\<rparr>"
    unfolding s1_def s2_def evs_def by simp
qed

text \<open>
  C10. When validation fails, the Calculate action changes the errors and
  \<open>submitted\<close> and nothing else: the stored result, and with it whether the results
  panel is shown, is what it was before.
\<close>

theorem C10_failed_validation_keeps_result:
  assumes "\<not> snd (validateForm s)"
  shows "\<exists>e. e \<noteq> []
           \<and> fst (validateForm s) = [SetErrors e]
           \<and> step pw s ClickCalculate = s\<lparr>errors := e, submitted := True\<rparr>
           \<and> result (step pw s ClickCalculate) = result s
           \<and> results_shown (step pw s ClickCalculate) = results_shown s"
proof -
  define e where "e = validate (loanAmount s) (interestRate s) (loanTerm s)"
  have v: "validateForm s = ([SetErrors e], e = [])"
    unfolding e_def by (rule validateForm_validate)
  with assms have ne: "e \<noteq> []" by simp
  then have "calculateMortgage pw s = [SetErrors e, SetSubmitted True]"
    unfolding e_def by (rule calculateMortgage_invalid)
  then have "step pw s ClickCalculate = s\<lparr>errors := e, submitted := True\<rparr>"
    by (simp add: step_def run_def)
  with ne v show ?thesis by (simp add: results_shown_def)
qed

theorem C10_failed_validation_keeps_result_witness:
  "\<not> snd (validateForm (steps pow_rounded initial [ChangeLoanAmount ''120000'',
          ChangeInterestRate ''0'', ChangeLoanTerm ''10'', ClickCalculate,
          ChangeLoanTerm ''2.5'']))
   \<and> result (steps pow_rounded initial [ChangeLoanAmount ''120000'', ChangeInterestRate ''0'',
        ChangeLoanTerm ''10'', ClickCalculate, ChangeLoanTerm ''2.5'', ClickCalculate])
       = Some \<lparr>monthlyPayment = Fin 1000, totalPayment = Fin 120000, totalInterest = Fin 0\<rparr>
   \<and> results_shown (steps pow_rounded initial [ChangeLoanAmount ''120000'', ChangeInterestRate ''0'',
        ChangeLoanTerm ''10'', ClickCalculate, ChangeLoanTerm ''2.5'', ClickCalculate])"
proof -
  define s where "s = steps pow_rounded initial [ChangeLoanAmount ''120000'', ChangeInterestRate ''0'',
        ChangeLoanTerm ''10'', ClickCalculate, ChangeLoanTerm ''2.5'']"
  note n = Number_examples
  note c = calculate_120000
  have s: "s = \<lparr>loanAmount = ''120000'', interestRate = ''0'', loanTerm = ''2.5'',
                mortgageType = Repayment,
                result = Some \<lparr>monthlyPayment = Fin 1000, totalPayment = Fin 120000,
                                totalInterest = Fin 0\<rparr>,
                errors = [], submitted = True\<rparr>"
    by (simp add: s_def steps_def step_def run_def calculateMortgage_def validateForm_def
          Object_keys_def initial_def n c)
  have v: "\<not> snd (validateForm s)"
    unfolding s by (simp add: validateForm_def Object_keys_def n)
  have e: "steps pow_rounded initial [ChangeLoanAmount ''120000'', ChangeInterestRate ''0'',
        ChangeLoanTerm ''10'', ClickCalculate, ChangeLoanTerm ''2.5'', ClickCalculate]
        = step pow_rounded s ClickCalculate"
    by (simp add: s_def steps_def)
  from C10_failed_validation_keeps_result[OF v, of pow_rounded] have
    "result (step pow_rounded s ClickCalculate) = result s"
    "results_shown (step pow_rounded s ClickCalculate) = results_shown s"
    by blast+
  moreover have "result s = Some \<lparr>monthlyPayment = Fin 1000, totalPayment = Fin 120000,
                                totalInterest = Fin 0\<rparr>" "results_shown s"
    unfolding s by (simp_all add: results_shown_def)
  ultimately show
    "\<not> snd (validateForm (steps pow_rounded initial [ChangeLoanAmount ''120000'',
          ChangeInterestRate ''0'', ChangeLoanTerm ''10'', ClickCalculate,
          ChangeLoanTerm ''2.5'']))
   \<and> result (steps pow_rounded initial [ChangeLoanAmount ''120000'', ChangeInterestRate ''0'',
        ChangeLoanTerm ''10'', ClickCalculate, ChangeLoanTerm ''2.5'', ClickCalculate])
       = Some \<lparr>monthlyPayment = Fin 1000, totalPayment = Fin 120000, totalInterest = Fin 0\<rparr>
   \<and> results_shown (steps pow_rounded initial [ChangeLoanAmount ''120000'', ChangeInterestRate ''0'',
        ChangeLoanTerm ''10'', ClickCalculate, ChangeLoanTerm ''2.5'', ClickCalculate])"
    using v unfolding e unfolding s_def by simp
qed

subsection \<open>The formulas of the two branches\<close>

lemma js_eq_Fin_0: "js_eq r (Fin 0) \<longleftrightarrow> r = Fin 0"
  by (cases r) (simp_all add: js_eq_def)

lemma figures_Repayment:
  "figures pw P a y Repayment =
     (let r = js_div (js_div a (Fin 100)) (Fin 12); n = js_mul y (Fin 12);
          m = (if r = Fin 0 then js_div P n
               else js_div (js_mul P (js_mul r (Math_pow pw (js_add (Fin 1) r) n)))
                           (js_sub (Math_pow pw (js_add (Fin 1) r) n) (Fin 1)))
      in (m, js_mul m n, js_sub (js_mul m n) P))"
  by (simp add: figures_def monthlyRate_def numberOfPayments_def annuity_numerator_def
        annuity_denominator_def js_eq_Fin_0 Let_def)

lemma figures_InterestOnly:
  "figures pw P a y InterestOnly =
     (let r = js_div (js_div a (Fin 100)) (Fin 12); n = js_mul y (Fin 12); m = js_mul P r
      in (m, js_add P (js_mul m n), js_mul m n))"
  by (simp add: figures_def monthlyRate_def numberOfPayments_def Let_def)

lemma calculate_fields:
  "figures pw P a y ty = (m, t, i) \<Longrightarrow>
   calculate pw P a y ty = \<lparr>monthlyPayment = round2 m, totalPayment = round2 t,
                             totalInterest = round2 i\<rparr>"
  by (simp add: calculate_def)

text \<open>
  C1. With \<open>r = annualRate / 100 / 12\<close> and \<open>n = years * 12\<close>, the repayment branch
  computes the monthly payment \<open>P / n\<close> when \<open>r\<close> is 0 and
  \<open>P * (r * pow(1 + r, n)) / (pow(1 + r, n) - 1)\<close> otherwise; before rounding, the
  total payment is the monthly payment times \<open>n\<close> and the total interest is the total
  payment minus \<open>P\<close>. The returned record holds these three values rounded. Every
  operator is the operator of the program, which rounds to binary64; this holds for all
  arguments, validated or not, and whatever \<open>Math.pow\<close> returns.
\<close>

theorem C1_repayment_formula:
  "let r = js_div (js_div a (Fin 100)) (Fin 12);
       n = js_mul y (Fin 12);
       m = (if r = Fin 0 then js_div P n
            else js_div (js_mul P (js_mul r (Math_pow pw (js_add (Fin 1) r) n)))
                        (js_sub (Math_pow pw (js_add (Fin 1) r) n) (Fin 1)))
   in figures pw P a y Repayment = (m, js_mul m n, js_sub (js_mul m n) P)
    \<and> calculate pw P a y Repayment
        = \<lparr>monthlyPayment = round2 m,
           totalPayment = round2 (js_mul m n),
           totalInterest = round2 (js_sub (js_mul m n) P)\<rparr>"
proof -
  define r where "r = js_div (js_div a (Fin 100)) (Fin 12)"
  define n where "n = js_mul y (Fin 12)"
  define m where "m = (if r = Fin 0 then js_div P n
            else js_div (js_mul P (js_mul r (Math_pow pw (js_add (Fin 1) r) n)))
                        (js_sub (Math_pow pw (js_add (Fin 1) r) n) (Fin 1)))"
  have f: "figures pw P a y Repayment = (m, js_mul m n, js_sub (js_mul m n) P)"
    unfolding figures_Repayment Let_def r_def n_def m_def ..
  from f calculate_fields[OF f] show ?thesis
    unfolding Let_def r_def n_def m_def by simp
qed

text \<open>
  An instance: 99999 at rate 0 over 30 years. The quotient \<open>99999 / 360\<close> is rounded
  to binary64 below 277.775, so the returned monthly payment is 277.77; the product
  with 360 is rounded below 99999, so the total interest before rounding is negative.
\<close>

theorem C1_repayment_formula_witness:
  "figures pow_rounded (Fin 99999) (Fin 0) (Fin 30) Repayment
       = (b64 (99999 / 360), Fin (6871878954123263 / 68719476736), Fin (- 1 / 68719476736))
   \<and> calculate pow_rounded (Fin 99999) (Fin 0) (Fin 30) Repayment
       = \<lparr>monthlyPayment = b64 (27777 / 100), totalPayment = Fin 99999,
          totalInterest = Fin 0\<rparr>"
proof -
  show "figures pow_rounded (Fin 99999) (Fin 0) (Fin 30) Repayment
       = (b64 (99999 / 360), Fin (6871878954123263 / 68719476736), Fin (- 1 / 68719476736))
   \<and> calculate pow_rounded (Fin 99999) (Fin 0) (Fin 30) Repayment
       = \<lparr>monthlyPayment = b64 (27777 / 100), totalPayment = Fin 99999,
          totalInterest = Fin 0\<rparr>"
    using C1_repayment_formula[of "Fin 0" "Fin 30" "Fin 99999" pow_rounded]
    by (simp add: Let_def js_sub_def round2_def b64_eval)
qed

text \<open>
  C2. With the same \<open>r\<close> and \<open>n\<close>, the interest-only branch computes the monthly
  payment \<open>P * r\<close>, which is 0 when \<open>r\<close> is 0 and \<open>P\<close> is finite, the total payment
  \<open>P + monthlyPayment * n\<close>, which includes the principal, and the total interest
  \<open>monthlyPayment * n\<close>, all before rounding. For the strings \<open>250000\<close>, \<open>6.5\<close> and
  \<open>30\<close> the returned monthly payment is 1354.17, the total interest is the unrounded
  monthly payment times 360, which is 487500, and the total payment is 250000 more.
\<close>

theorem C2_interest_only_formula:
  "(let r = js_div (js_div a (Fin 100)) (Fin 12);
        n = js_mul y (Fin 12);
        m = js_mul P r
    in figures pw P a y InterestOnly = (m, js_add P (js_mul m n), js_mul m n)
     \<and> calculate pw P a y InterestOnly
         = \<lparr>monthlyPayment = round2 m,
            totalPayment = round2 (js_add P (js_mul m n)),
            totalInterest = round2 (js_mul m n)\<rparr>
     \<and> (isFinite P \<and> r = Fin 0 \<longrightarrow> m = Fin 0))
   \<and> figures pw (Number ''250000'') (Number ''6.5'') (Number ''30'') InterestOnly
       = (js_mul (Fin 250000) (js_div (js_div (Fin (65 / 10)) (Fin 100)) (Fin 12)),
          Fin 737500, Fin 487500)
   \<and> js_mul (js_mul (Fin 250000) (js_div (js_div (Fin (65 / 10)) (Fin 100)) (Fin 12))) (Fin 360)
       = Fin 487500
   \<and> js_add (Fin 250000) (Fin 487500) = Fin 737500
   \<and> calculate pw (Number ''250000'') (Number ''6.5'') (Number ''30'') InterestOnly
       = \<lparr>monthlyPayment = b64 (135417 / 100), totalPayment = Fin 737500,
          totalInterest = Fin 487500\<rparr>"
proof -
  define r where "r = js_div (js_div a (Fin 100)) (Fin 12)"
  define n where "n = js_mul y (Fin 12)"
  define m where "m = js_mul P r"
  have f: "figures pw P a y InterestOnly = (m, js_add P (js_mul m n), js_mul m n)"
    unfolding figures_InterestOnly Let_def r_def n_def m_def ..
  have z: "isFinite P \<and> r = Fin 0 \<longrightarrow> m = Fin 0"
    unfolding m_def by (cases P) auto
  have g: "let r = js_div (js_div a (Fin 100)) (Fin 12);
        n = js_mul y (Fin 12);
        m = js_mul P r
    in figures pw P a y InterestOnly = (m, js_add P (js_mul m n), js_mul m n)
     \<and> calculate pw P a y InterestOnly
         = \<lparr>monthlyPayment = round2 m,
            totalPayment = round2 (js_add P (js_mul m n)),
            totalInterest = round2 (js_mul m n)\<rparr>
     \<and> (isFinite P \<and> r = Fin 0 \<longrightarrow> m = Fin 0)"
    using f calculate_fields[OF f] z unfolding Let_def r_def n_def m_def by simp
  have r65: "js_div (js_div (Fin (65 / 10)) (Fin 100)) (Fin 12)
               = Fin (390311967705443 / 72057594037927936)"
    by (simp add: b64_eval)
  have m65: "js_mul (Fin 250000) (Fin (390311967705443 / 72057594037927936))
               = Fin (5955687983786667 / 4398046511104)"
    by (simp add: b64_eval)
  have t65: "js_mul (Fin (5955687983786667 / 4398046511104)) (Fin 360) = Fin 487500"
    "js_add (Fin 250000) (Fin 487500) = Fin 737500"
    by (simp_all add: b64_eval)
  have n30: "js_mul (Fin 30) (Fin 12) = Fin 360"
    by (simp add: b64_eval)
  have fe: "figures pw (Fin 250000) (Fin (65 / 10)) (Fin 30) InterestOnly
       = (Fin (5955687983786667 / 4398046511104), Fin 737500, Fin 487500)"
    unfolding figures_InterestOnly Let_def r65 n30 m65 t65 ..
  have ce: "calculate pw (Fin 250000) (Fin (65 / 10)) (Fin 30) InterestOnly
       = \<lparr>monthlyPayment = b64 (135417 / 100), totalPayment = Fin 737500,
          totalInterest = Fin 487500\<rparr>"
    unfolding calculate_fields[OF fe] by (simp add: round2_def b64_eval)
  show ?thesis
    using g fe ce unfolding Number_examples r65 m65 t65 by simp
qed

theorem C2_interest_only_formula_witness:
  "figures pow_rounded (Fin 1000) (Fin (375 / 100)) (Fin 1) InterestOnly
       = (Fin (7036874417766399 / 2251799813685248), Fin (2075 / 2),
          Fin (5277655813324799 / 140737488355328))
   \<and> calculate pow_rounded (Fin 1000) (Fin (375 / 100)) (Fin 1) InterestOnly
       = \<lparr>monthlyPayment = b64 (312 / 100), totalPayment = Fin (2075 / 2),
          totalInterest = Fin (75 / 2)\<rparr>
   \<and> js_mul (Fin 1000) (Fin 0) = Fin 0"
proof -
  note t = C2_interest_only_formula[of "Fin (375 / 100)" "Fin 1" "Fin 1000" pow_rounded]
  have r: "js_div (js_div (Fin (375 / 100)) (Fin 100)) (Fin 12)
             = Fin (7205759403792793 / 2305843009213693952)"
    by (simp add: b64_eval)
  have m: "js_mul (Fin 1000) (Fin (7205759403792793 / 2305843009213693952))
             = Fin (7036874417766399 / 2251799813685248)"
    by (simp add: b64_eval)
  have n: "js_mul (Fin 1) (Fin 12) = Fin 12" by (simp add: b64_eval)
  have i: "js_mul (Fin (7036874417766399 / 2251799813685248)) (Fin 12)
             = Fin (5277655813324799 / 140737488355328)"
    by (simp add: b64_eval)
  have p: "js_add (Fin 1000) (Fin (5277655813324799 / 140737488355328)) = Fin (2075 / 2)"
    by (simp add: b64_eval)
  have q: "round2 (Fin (7036874417766399 / 2251799813685248)) = b64 (312 / 100)"
    "round2 (Fin (2075 / 2)) = Fin (2075 / 2)"
    "round2 (Fin (5277655813324799 / 140737488355328)) = Fin (75 / 2)"
    by (simp_all add: round2_def b64_eval)
  from t have
    "figures pow_rounded (Fin 1000) (Fin (375 / 100)) (Fin 1) InterestOnly
       = (Fin (7036874417766399 / 2251799813685248), Fin (2075 / 2),
          Fin (5277655813324799 / 140737488355328))"
    "calculate pow_rounded (Fin 1000) (Fin (375 / 100)) (Fin 1) InterestOnly
       = \<lparr>monthlyPayment = b64 (312 / 100), totalPayment = Fin (2075 / 2),
          totalInterest = Fin (75 / 2)\<rparr>"
    unfolding Let_def r m n i p q by blast+
  then show "figures pow_rounded (Fin 1000) (Fin (375 / 100)) (Fin 1) InterestOnly
       = (Fin (7036874417766399 / 2251799813685248), Fin (2075 / 2),
          Fin (5277655813324799 / 140737488355328))
   \<and> calculate pow_rounded (Fin 1000) (Fin (375 / 100)) (Fin 1) InterestOnly
       = \<lparr>monthlyPayment = b64 (312 / 100), totalPayment = Fin (2075 / 2),
          totalInterest = Fin (75 / 2)\<rparr>
   \<and> js_mul (Fin 1000) (Fin 0) = Fin 0"
    by simp
qed

subsection \<open>Rounding\<close>

text \<open>
  C4. Each of the three returned fields is \<open>Math.round(x * 100) / 100\<close> of its own
  figure, and the figures are the formulas of the two branches, in which nothing is
  rounded to cents: the totals are computed from the unrounded monthly payment. When
  \<open>x * 100\<close> is finite the rounded field is the binary64 value nearest to a whole
  number of hundredths. For 250000 at 6.5 percent over 30 years, interest only, the
  returned total interest is 487500, which is not what the returned monthly payment
  times 360 would give.
\<close>

theorem C4_rounding_at_output_only:
  "(\<forall>x. round2 x = js_div (Math_round (js_mul x (Fin 100))) (Fin 100))
   \<and> (\<forall>x v. js_mul (Fin x) (Fin 100) = Fin v
          \<longrightarrow> round2 (Fin x) = b64 (of_int \<lfloor>v + 1 / 2\<rfloor> / 100))
   \<and> (let r = js_div (js_div a (Fin 100)) (Fin 12);
           n = js_mul y (Fin 12);
           m = (if r = Fin 0 then js_div P n
                else js_div (js_mul P (js_mul r (Math_pow pw (js_add (Fin 1) r) n)))
                            (js_sub (Math_pow pw (js_add (Fin 1) r) n) (Fin 1)))
       in calculate pw P a y Repayment
           = \<lparr>monthlyPayment = round2 m,
              totalPayment = round2 (js_mul m n),
              totalInterest = round2 (js_sub (js_mul m n) P)\<rparr>)
   \<and> (let r = js_div (js_div a (Fin 100)) (Fin 12);
           n = js_mul y (Fin 12);
           m = js_mul P r
       in calculate pw P a y InterestOnly
           = \<lparr>monthlyPayment = round2 m,
              totalPayment = round2 (js_add P (js_mul m n)),
              totalInterest = round2 (js_mul m n)\<rparr>)
   \<and> totalInterest (calculate pw (Fin 250000) (Fin (65 / 10)) (Fin 30) InterestOnly)
       = Fin 487500
   \<and> round2 (js_mul (monthlyPayment
                 (calculate pw (Fin 250000) (Fin (65 / 10)) (Fin 30) InterestOnly))
               (Fin 360))
       = b64 (4875012 / 10)"
proof -
  have a: "\<forall>x. round2 x = js_div (Math_round (js_mul x (Fin 100))) (Fin 100)"
    by (simp add: round2_def)
  have b: "\<forall>x v. js_mul (Fin x) (Fin 100) = Fin v
          \<longrightarrow> round2 (Fin x) = b64 (of_int \<lfloor>v + 1 / 2\<rfloor> / 100)"
    by (simp add: round2_def)
  define r where "r = js_div (js_div a (Fin 100)) (Fin 12)"
  define n where "n = js_mul y (Fin 12)"
  define m where "m = (if r = Fin 0 then js_div P n
            else js_div (js_mul P (js_mul r (Math_pow pw (js_add (Fin 1) r) n)))
                        (js_sub (Math_pow pw (js_add (Fin 1) r) n) (Fin 1)))"
  define m' where "m' = js_mul P r"
  have f: "figures pw P a y Repayment = (m, js_mul m n, js_sub (js_mul m n) P)"
    unfolding figures_Repayment Let_def r_def n_def m_def ..
  have f': "figures pw P a y InterestOnly = (m', js_add P (js_mul m' n), js_mul m' n)"
    unfolding figures_InterestOnly Let_def r_def n_def m'_def ..
  have c: "let r = js_div (js_div a (Fin 100)) (Fin 12);
           n = js_mul y (Fin 12);
           m = (if r = Fin 0 then js_div P n
                else js_div (js_mul P (js_mul r (Math_pow pw (js_add (Fin 1) r) n)))
                            (js_sub (Math_pow pw (js_add (Fin 1) r) n) (Fin 1)))
       in calculate pw P a y Repayment
           = \<lparr>monthlyPayment = round2 m,
              totalPayment = round2 (js_mul m n),
              totalInterest = round2 (js_sub (js_mul m n) P)\<rparr>"
    using calculate_fields[OF f] unfolding Let_def r_def n_def m_def .
  have c': "let r = js_div (js_div a (Fin 100)) (Fin 12);
           n = js_mul y (Fin 12);
           m = js_mul P r
       in calculate pw P a y InterestOnly
           = \<lparr>monthlyPayment = round2 m,
              totalPayment = round2 (js_add P (js_mul m n)),
              totalInterest = round2 (js_mul m n)\<rparr>"
    using calculate_fields[OF f'] unfolding Let_def r_def n_def m'_def .
  have r65: "js_div (js_div (Fin (65 / 10)) (Fin 100)) (Fin 12)
               = Fin (390311967705443 / 72057594037927936)"
    by (simp add: b64_eval)
  have m65: "js_mul (Fin 250000) (Fin (390311967705443 / 72057594037927936))
               = Fin (5955687983786667 / 4398046511104)"
    by (simp add: b64_eval)
  have t65: "js_mul (Fin (5955687983786667 / 4398046511104)) (Fin 360) = Fin 487500"
    "js_add (Fin 250000) (Fin 487500) = Fin 737500"
    by (simp_all add: b64_eval)
  have n30: "js_mul (Fin 30) (Fin 12) = Fin 360"
    by (simp add: b64_eval)
  have fe: "figures pw (Fin 250000) (Fin (65 / 10)) (Fin 30) InterestOnly
       = (Fin (5955687983786667 / 4398046511104), Fin 737500, Fin 487500)"
    unfolding figures_InterestOnly Let_def r65 n30 m65 t65 ..
  have rm: "round2 (Fin (5955687983786667 / 4398046511104))
              = Fin (744462830492713 / 549755813888)"
    by (simp add: round2_def b64_eval)
  have ri: "round2 (Fin 487500) = Fin 487500"
    by (simp add: round2_def b64_eval)
  have alt: "round2 (js_mul (Fin (744462830492713 / 549755813888)) (Fin 360))
               = b64 (4875012 / 10)"
    by (simp add: round2_def b64_eval)
  have e1: "totalInterest (calculate pw (Fin 250000) (Fin (65 / 10)) (Fin 30) InterestOnly)
       = Fin 487500"
    unfolding calculate_fields[OF fe] by (simp add: ri)
  have "monthlyPayment (calculate pw (Fin 250000) (Fin (65 / 10)) (Fin 30) InterestOnly)
          = Fin (744462830492713 / 549755813888)"
    unfolding calculate_fields[OF fe] rm by simp
  then have e2: "round2 (js_mul (monthlyPayment
                 (calculate pw (Fin 250000) (Fin (65 / 10)) (Fin 30) InterestOnly))
               (Fin 360))
       = b64 (4875012 / 10)"
    using alt by (simp only:)
  from a b c c' e1 e2 show ?thesis by blast
qed

theorem C4_rounding_at_output_only_witness:
  "js_mul (Fin (5955687983786667 / 4398046511104)) (Fin 100)
       = Fin (2326440618666667 / 17179869184)
   \<and> round2 (Fin (5955687983786667 / 4398046511104)) = b64 (135417 / 100)
   \<and> calculate pow_rounded (Fin 1000) (Fin (375 / 100)) (Fin 1) InterestOnly
       = \<lparr>monthlyPayment = b64 (312 / 100), totalPayment = Fin (2075 / 2),
          totalInterest = Fin (75 / 2)\<rparr>
   \<and> b64 (4875012 / 10) \<noteq> Fin 487500"
proof -
  note t = C4_rounding_at_output_only[of "Fin (375 / 100)" "Fin 1" "Fin 1000" pow_rounded]
  have x: "js_mul (Fin (5955687983786667 / 4398046511104)) (Fin 100)
       = Fin (2326440618666667 / 17179869184)"
    by (simp add: b64_eval)
  from t[THEN conjunct2, THEN conjunct1]
  have "\<forall>x v. js_mul (Fin x) (Fin 100) = Fin v
          \<longrightarrow> round2 (Fin x) = b64 (of_int \<lfloor>v + 1 / 2\<rfloor> / 100)" .
  with x have "round2 (Fin (5955687983786667 / 4398046511104))
     = b64 (of_int \<lfloor>(2326440618666667 / 17179869184 + 1 / 2 :: real)\<rfloor> / 100)"
    by blast
  then have y: "round2 (Fin (5955687983786667 / 4398046511104)) = b64 (135417 / 100)"
    by simp
  have r: "js_div (js_div (Fin (375 / 100)) (Fin 100)) (Fin 12)
             = Fin (7205759403792793 / 2305843009213693952)"
    by (simp add: b64_eval)
  have m: "js_mul (Fin 1000) (Fin (7205759403792793 / 2305843009213693952))
             = Fin (7036874417766399 / 2251799813685248)"
    by (simp add: b64_eval)
  have n: "js_mul (Fin 1) (Fin 12) = Fin 12" by (simp add: b64_eval)
  have i: "js_mul (Fin (7036874417766399 / 2251799813685248)) (Fin 12)
             = Fin (5277655813324799 / 140737488355328)"
    by (simp add: b64_eval)
  have p: "js_add (Fin 1000) (Fin (5277655813324799 / 140737488355328)) = Fin (2075 / 2)"
    by (simp add: b64_eval)
  have q: "round2 (Fin (7036874417766399 / 2251799813685248)) = b64 (312 / 100)"
    "round2 (Fin (2075 / 2)) = Fin (2075 / 2)"
    "round2 (Fin (5277655813324799 / 140737488355328)) = Fin (75 / 2)"
    by (simp_all add: round2_def b64_eval)
  from t[THEN conjunct2, THEN conjunct2, THEN conjunct2, THEN conjunct1]
  have z: "calculate pow_rounded (Fin 1000) (Fin (375 / 100)) (Fin 1) InterestOnly
       = \<lparr>monthlyPayment = b64 (312 / 100), totalPayment = Fin (2075 / 2),
          totalInterest = Fin (75 / 2)\<rparr>"
    unfolding Let_def r m n i p q .
  have w: "b64 (4875012 / 10) \<noteq> Fin 487500" by (simp add: b64_eval)
  from x y z w show
    "js_mul (Fin (5955687983786667 / 4398046511104)) (Fin 100)
       = Fin (2326440618666667 / 17179869184)
   \<and> round2 (Fin (5955687983786667 / 4398046511104)) = b64 (135417 / 100)
   \<and> calculate pow_rounded (Fin 1000) (Fin (375 / 100)) (Fin 1) InterestOnly
       = \<lparr>monthlyPayment = b64 (312 / 100), totalPayment = Fin (2075 / 2),
          totalInterest = Fin (75 / 2)\<rparr>
   \<and> b64 (4875012 / 10) \<noteq> Fin 487500"
    by blast
qed

subsection \<open>Division by zero\<close>

text \<open>
  With rate 0 the monthly rate is 0, the repayment branch takes the quotient
  \<open>P / n\<close>, and \<open>n\<close> is at least 12 for a term of at least one year.
\<close>

lemma rate_zero_linear_branch:
  assumes "1 \<le> y"
  shows "monthlyRate (Fin 0) = Fin 0"
    and "figures pw P (Fin 0) (Fin y) Repayment
           = (js_div P (numberOfPayments (Fin y)),
              js_mul (js_div P (numberOfPayments (Fin y))) (numberOfPayments (Fin y)),
              js_sub (js_mul (js_div P (numberOfPayments (Fin y))) (numberOfPayments (Fin y))) P)"
    and "js_le (Fin 12) (numberOfPayments (Fin y))"
proof -
  show z: "monthlyRate (Fin 0) = Fin 0" by (simp add: monthlyRate_def)
  show "figures pw P (Fin 0) (Fin y) Repayment
           = (js_div P (numberOfPayments (Fin y)),
              js_mul (js_div P (numberOfPayments (Fin y))) (numberOfPayments (Fin y)),
              js_sub (js_mul (js_div P (numberOfPayments (Fin y))) (numberOfPayments (Fin y))) P)"
    by (simp add: figures_def z js_eq_def Let_def)
  have "12 \<le> y * 12" using assms by simp
  from b64_mono[OF this] show "js_le (Fin 12) (numberOfPayments (Fin y))"
    by (simp add: numberOfPayments_def b64_small_values)
qed

text \<open>
  C3, at an input where the program divides by zero. The strings \<open>100000\<close>,
  \<open>0.0000000000001\<close> and \<open>1\<close> pass validation. The monthly rate is positive, so the
  test \<open>monthlyRate === 0\<close> fails and the annuity branch is taken; but \<open>1 + monthlyRate\<close>
  is rounded to 1, so with a \<open>Math.pow\<close> that returns 1 for \<open>pow(1, 12)\<close> the divisor
  \<open>pow(1 + r, n) - 1\<close> is 0, the quotient is \<open>Infinity\<close>, and all three returned fields
  are \<open>Infinity\<close>.
\<close>

theorem C3_zero_divisor_at_tiny_rate:
  assumes "pw 1 12 = Fin 1"
  shows "validate ''100000'' ''0.0000000000001'' ''1'' = []
       \<and> js_lt (Fin 0) (monthlyRate (Number ''0.0000000000001''))
       \<and> \<not> js_eq (monthlyRate (Number ''0.0000000000001'')) (Fin 0)
       \<and> js_add (Fin 1) (monthlyRate (Number ''0.0000000000001'')) = Fin 1
       \<and> annuity_denominator pw (monthlyRate (Number ''0.0000000000001''))
            (numberOfPayments (Number ''1'')) = Fin 0
       \<and> figures pw (Number ''100000'') (Number ''0.0000000000001'') (Number ''1'') Repayment
           = (PInf, PInf, PInf)
       \<and> calculate pw (Number ''100000'') (Number ''0.0000000000001'') (Number ''1'') Repayment
           = \<lparr>monthlyPayment = PInf, totalPayment = PInf, totalInterest = PInf\<rparr>"
proof -
  have a: "Number ''0.0000000000001''
             = Fin (3961408125713217 / 39614081257132168796771975168)"
    by (simp add: Number_eval b64_eval)
  note n = Number_examples
  have v: "validate ''100000'' ''0.0000000000001'' ''1'' = []"
    by (simp add: validate_def validateForm_def initial_def run_def Object_keys_def a n)
  have r: "monthlyRate (Fin (3961408125713217 / 39614081257132168796771975168))
             = Fin (845100400152153 / 10141204801825835211973625643008)"
    by (simp add: monthlyRate_def b64_eval)
  have o: "js_add (Fin 1) (Fin (845100400152153 / 10141204801825835211973625643008)) = Fin 1"
    by (simp add: b64_eval)
  have m: "numberOfPayments (Fin 1) = Fin 12"
    by (simp add: numberOfPayments_def b64_eval)
  have p: "Math_pow pw (Fin 1) (Fin 12) = Fin 1"
    using assms by simp
  have d: "annuity_denominator pw (Fin (845100400152153 / 10141204801825835211973625643008))
             (Fin 12) = Fin 0"
    unfolding annuity_denominator_def o p by (simp add: js_sub_def)
  have u: "annuity_numerator pw (Fin 100000)
             (Fin (845100400152153 / 10141204801825835211973625643008)) (Fin 12)
             = Fin (2579041748511209 / 309485009821345068724781056)"
    unfolding annuity_numerator_def o p by (simp add: b64_eval)
  have f: "figures pw (Fin 100000) (Fin (3961408125713217 / 39614081257132168796771975168))
             (Fin 1) Repayment = (PInf, PInf, PInf)"
    by (simp add: figures_def r m d u js_eq_def js_sub_def inf_of_sign_def)
  have c: "calculate pw (Fin 100000) (Fin (3961408125713217 / 39614081257132168796771975168))
             (Fin 1) Repayment
           = \<lparr>monthlyPayment = PInf, totalPayment = PInf, totalInterest = PInf\<rparr>"
    unfolding calculate_fields[OF f] by (simp add: round2_def inf_of_sign_def)
  show ?thesis
    unfolding a n r m o by (simp add: v[unfolded a n] d f c js_eq_def)
qed

theorem C3_zero_divisor_at_tiny_rate_witness:
  "pow_rounded 1 12 = Fin 1
   \<and> validate ''100000'' ''0.0000000000001'' ''1'' = []
   \<and> annuity_denominator pow_rounded (monthlyRate (Number ''0.0000000000001''))
        (numberOfPayments (Number ''1'')) = Fin 0
   \<and> calculate pow_rounded (Number ''100000'') (Number ''0.0000000000001'') (Number ''1'')
        Repayment
       = \<lparr>monthlyPayment = PInf, totalPayment = PInf, totalInterest = PInf\<rparr>"
proof -
  have h: "pow_rounded 1 12 = Fin 1"
    by (simp add: pow_rounded_def b64_small_values)
  from C3_zero_divisor_at_tiny_rate[of pow_rounded, OF h] h show ?thesis by blast
qed

subsection \<open>Sign of the figures\<close>

lemma monthlyRate_nonneg:
  assumes "0 \<le> a"
  shows "js_le (Fin 0) (monthlyRate (Fin a))"
  unfolding monthlyRate_def using assms
  by (intro div_const_nonneg) simp_all

lemma numberOfPayments_ge:
  assumes "1 \<le> y"
  shows "js_le (Fin 12) (numberOfPayments (Fin y))"
proof -
  have "12 \<le> y * 12" using assms by simp
  from b64_mono[OF this] show ?thesis
    by (simp add: numberOfPayments_def b64_small_values)
qed

lemma numberOfPayments_finite:
  assumes "1 \<le> y" and "isFinite (numberOfPayments (Fin y))"
  obtains n where "numberOfPayments (Fin y) = Fin n" and "12 \<le> n"
  using numberOfPayments_ge[OF assms(1)] assms(2)
  by (cases "numberOfPayments (Fin y)") simp_all

lemma add_nonneg_ge:
  assumes "b64 p = Fin p" and "js_le (Fin 0) x"
  shows "js_le (Fin p) (js_add (Fin p) x)"
proof (cases x)
  case (Fin v)
  with assms(2) have "p \<le> p + v" by simp
  from b64_mono[OF this] Fin assms(1) show ?thesis by simp
qed (use assms in simp_all)

lemma mul_rate_pow_nonneg:
  assumes "js_le (Fin 0) r" and "r \<noteq> Fin 0" and "js_le (Fin 1) q"
  shows "js_le (Fin 0) (js_mul r q)"
proof (cases r; cases q)
  fix u v assume "r = Fin u" "q = Fin v"
  with assms have "0 \<le> u * v" by simp
  from b64_nonneg[OF this] \<open>r = Fin u\<close> \<open>q = Fin v\<close> show ?thesis by simp
qed (use assms in \<open>auto simp: inf_of_sign_def\<close>)

lemma sub_one_nonneg:
  assumes "js_le (Fin 1) q"
  shows "js_le (Fin 0) (js_sub q (Fin 1))"
proof (cases q)
  case (Fin v)
  with assms have "0 \<le> v + - 1" by simp
  from b64_nonneg[OF this] Fin show ?thesis by (simp add: js_sub_def)
qed (use assms in \<open>simp_all add: js_sub_def\<close>)

lemma div_nonneg_never_negative:
  assumes "js_le (Fin 0) x" and "js_le (Fin 0) d"
  shows "\<not> js_lt (js_div x d) (Fin 0)"
proof (cases x; cases d)
  fix u v assume "x = Fin u" "d = Fin v"
  with assms have "0 \<le> u / v" by simp
  from b64_nonneg[OF this] \<open>x = Fin u\<close> \<open>d = Fin v\<close> assms show ?thesis
    by (cases "b64 (u / v)") (auto simp: inf_of_sign_def)
qed (use assms in \<open>auto simp: inf_of_sign_def\<close>)

lemma mul_const_never_negative:
  assumes "\<not> js_lt x (Fin 0)" and "0 < c"
  shows "\<not> js_lt (js_mul x (Fin c)) (Fin 0)"
proof (cases "isNaN x")
  case True
  then show ?thesis by (cases x) simp_all
next
  case False
  with assms(1) have "js_le (Fin 0) x" by (simp add: not_js_lt_iff)
  from mul_const_nonneg[OF this assms(2)] show ?thesis by (simp add: not_js_lt_iff)
qed

text \<open>
  The repayment branch: the monthly payment and the total payment before rounding are
  never negative, at rate 0 and when \<open>Math.pow\<close> returns at least 1.
\<close>

lemma repayment_never_negative:
  assumes "0 < P" and "0 \<le> a" and "1 \<le> y" and "isFinite (numberOfPayments (Fin y))"
    and "monthlyRate (Fin a) = Fin 0
         \<or> js_le (Fin 1) (Math_pow pw (js_add (Fin 1) (monthlyRate (Fin a)))
                             (numberOfPayments (Fin y)))"
  shows "\<exists>m t i. figures pw (Fin P) (Fin a) (Fin y) Repayment = (m, t, i)
           \<and> \<not> js_lt m (Fin 0) \<and> \<not> js_lt t (Fin 0)"
proof -
  from numberOfPayments_finite[OF assms(3,4)] obtain n where
    n: "numberOfPayments (Fin y) = Fin n" and n12: "12 \<le> n" by blast
  then have n0: "0 < n" by simp
  define r where "r = monthlyRate (Fin a)"
  have r0: "js_le (Fin 0) r" unfolding r_def using assms(2) by (rule monthlyRate_nonneg)
  define m where "m = (if r = Fin 0 then js_div (Fin P) (Fin n)
     else js_div (annuity_numerator pw (Fin P) r (Fin n)) (annuity_denominator pw r (Fin n)))"
  have f: "figures pw (Fin P) (Fin a) (Fin y) Repayment
             = (m, js_mul m (Fin n), js_sub (js_mul m (Fin n)) (Fin P))"
    by (simp add: figures_def n r_def[symmetric] m_def js_eq_Fin_0 Let_def)
  have m0: "\<not> js_lt m (Fin 0)"
  proof (cases "r = Fin 0")
    case True
    have "js_le (Fin 0) (js_div (Fin P) (Fin n))"
      using assms(1) n0 by (intro div_const_nonneg) simp_all
    with True show ?thesis by (simp add: m_def not_js_lt_iff)
  next
    case False
    with assms(5) have q: "js_le (Fin 1) (Math_pow pw (js_add (Fin 1) r) (Fin n))"
      by (simp add: r_def n)
    have "js_le (Fin 0) (js_mul r (Math_pow pw (js_add (Fin 1) r) (Fin n)))"
      using r0 False q by (rule mul_rate_pow_nonneg)
    then have u: "js_le (Fin 0) (annuity_numerator pw (Fin P) r (Fin n))"
      unfolding annuity_numerator_def using assms(1) by (intro mul_pos_nonneg)
    have d: "js_le (Fin 0) (annuity_denominator pw r (Fin n))"
      unfolding annuity_denominator_def using q by (rule sub_one_nonneg)
    from div_nonneg_never_negative[OF u d] False show ?thesis by (simp add: m_def)
  qed
  from mul_const_never_negative[OF m0 n0] have "\<not> js_lt (js_mul m (Fin n)) (Fin 0)" .
  with f m0 show ?thesis by blast
qed

text \<open>The interest-only branch: no figure is negative or \<open>NaN\<close>.\<close>

lemma interest_only_nonneg:
  assumes "b64 P = Fin P" and "0 < P" and "0 \<le> a" and "1 \<le> y"
    and "isFinite (numberOfPayments (Fin y))"
  shows "\<exists>m t i. figures pw (Fin P) (Fin a) (Fin y) InterestOnly = (m, t, i)
           \<and> js_le (Fin 0) m \<and> js_le (Fin P) t \<and> js_le (Fin 0) i"
proof -
  from numberOfPayments_finite[OF assms(4,5)] obtain n where
    n: "numberOfPayments (Fin y) = Fin n" and n12: "12 \<le> n" by blast
  then have n0: "0 < n" by simp
  define r where "r = monthlyRate (Fin a)"
  have r0: "js_le (Fin 0) r" unfolding r_def using assms(3) by (rule monthlyRate_nonneg)
  define m where "m = js_mul (Fin P) r"
  have f: "figures pw (Fin P) (Fin a) (Fin y) InterestOnly
             = (m, js_add (Fin P) (js_mul m (Fin n)), js_mul m (Fin n))"
    by (simp add: figures_def n r_def[symmetric] m_def Let_def)
  have m0: "js_le (Fin 0) m" unfolding m_def using assms(2) r0 by (rule mul_pos_nonneg)
  have i0: "js_le (Fin 0) (js_mul m (Fin n))" using m0 n0 by (rule mul_const_nonneg)
  have t0: "js_le (Fin P) (js_add (Fin P) (js_mul m (Fin n)))"
    using assms(1) i0 by (rule add_nonneg_ge)
  from f m0 i0 t0 show ?thesis by blast
qed

text \<open>
  C5, as the code has it. For a binary64 principal \<open>P > 0\<close>, a rate \<open>a \<ge> 0\<close> and a
  term \<open>y \<ge> 1\<close> whose number of payments \<open>y * 12\<close> is finite: in the interest-only
  branch the three returned fields are non-negative numbers, the total payment before
  rounding is at least \<open>P\<close>, and the returned total payment is at least
  \<open>Math.round(P * 100) / 100\<close>; in the repayment branch the returned monthly payment
  and total payment are never negative, at rate 0 and, at a positive rate, when
  \<open>Math.pow\<close> returns at least 1. Nothing is said of whether the fields are finite, nor
  of the total interest of the repayment branch.
\<close>

theorem C5_sign_of_figures:
  assumes "b64 P = Fin P" and "0 < P" and "0 \<le> a" and "1 \<le> y"
    and "isFinite (numberOfPayments (Fin y))"
  shows "js_le (Fin 0) (monthlyPayment (calculate pw (Fin P) (Fin a) (Fin y) InterestOnly))
       \<and> js_le (Fin 0) (totalPayment (calculate pw (Fin P) (Fin a) (Fin y) InterestOnly))
       \<and> js_le (Fin 0) (totalInterest (calculate pw (Fin P) (Fin a) (Fin y) InterestOnly))
       \<and> js_le (Fin P) (fst (snd (figures pw (Fin P) (Fin a) (Fin y) InterestOnly)))
       \<and> js_le (round2 (Fin P))
                (totalPayment (calculate pw (Fin P) (Fin a) (Fin y) InterestOnly))
       \<and> (monthlyRate (Fin a) = Fin 0
            \<or> js_le (Fin 1) (Math_pow pw (js_add (Fin 1) (monthlyRate (Fin a)))
                                (numberOfPayments (Fin y)))
          \<longrightarrow> \<not> js_lt (monthlyPayment (calculate pw (Fin P) (Fin a) (Fin y) Repayment)) (Fin 0)
            \<and> \<not> js_lt (totalPayment (calculate pw (Fin P) (Fin a) (Fin y) Repayment)) (Fin 0))"
proof -
  from interest_only_nonneg[OF assms, of pw] obtain m t i where
    f: "figures pw (Fin P) (Fin a) (Fin y) InterestOnly = (m, t, i)"
    and s: "js_le (Fin 0) m" "js_le (Fin P) t" "js_le (Fin 0) i" by blast
  have p0: "js_le (Fin 0) (Fin P)" using assms(2) by simp
  have t0: "js_le (Fin 0) t" using p0 s(2) by (rule js_le_trans)
  have io: "js_le (Fin 0) (monthlyPayment (calculate pw (Fin P) (Fin a) (Fin y) InterestOnly))
       \<and> js_le (Fin 0) (totalPayment (calculate pw (Fin P) (Fin a) (Fin y) InterestOnly))
       \<and> js_le (Fin 0) (totalInterest (calculate pw (Fin P) (Fin a) (Fin y) InterestOnly))
       \<and> js_le (Fin P) (fst (snd (figures pw (Fin P) (Fin a) (Fin y) InterestOnly)))
       \<and> js_le (round2 (Fin P))
                (totalPayment (calculate pw (Fin P) (Fin a) (Fin y) InterestOnly))"
    unfolding calculate_fields[OF f] f
    using round2_nonneg[OF s(1)] round2_nonneg[OF t0] round2_nonneg[OF s(3)]
      round2_mono[OF s(2)] s(2)
    by simp
  have rp: "\<not> js_lt (monthlyPayment (calculate pw (Fin P) (Fin a) (Fin y) Repayment)) (Fin 0)
            \<and> \<not> js_lt (totalPayment (calculate pw (Fin P) (Fin a) (Fin y) Repayment)) (Fin 0)"
    if h: "monthlyRate (Fin a) = Fin 0
            \<or> js_le (Fin 1) (Math_pow pw (js_add (Fin 1) (monthlyRate (Fin a)))
                                (numberOfPayments (Fin y)))"
  proof -
    from repayment_never_negative[OF assms(2,3,4,5) h] obtain m' t' i' where
      f': "figures pw (Fin P) (Fin a) (Fin y) Repayment = (m', t', i')"
      and s': "\<not> js_lt m' (Fin 0)" "\<not> js_lt t' (Fin 0)" by blast
    show ?thesis
      unfolding calculate_fields[OF f']
      using round2_never_negative[OF s'(1)] round2_never_negative[OF s'(2)] by simp
  qed
  from io rp show ?thesis by blast
qed

lemma pow_rounded_ge_1:
  assumes "1 \<le> b" and "0 \<le> e"
  shows "js_le (Fin 1) (pow_rounded b e)"
proof -
  have "1 \<le> b powr e" using assms by (rule ge_one_powr_ge_zero)
  from b64_mono[OF this] show ?thesis by (simp add: pow_rounded_def b64_small_values)
qed

text \<open>The monthly rate and the number of payments for 6.5 percent over 30 years.\<close>

lemma rate_65_term_30:
  "monthlyRate (Fin (65 / 10)) = Fin (390311967705443 / 72057594037927936)"
  "numberOfPayments (Fin 30) = Fin 360"
  "js_add (Fin 1) (Fin (390311967705443 / 72057594037927936))
     = Fin (2263997062676043 / 2251799813685248)"
  by (simp_all add: monthlyRate_def numberOfPayments_def b64_eval)

lemma pow_rounded_65_30:
  "js_le (Fin 1) (Math_pow pow_rounded (js_add (Fin 1) (monthlyRate (Fin (65 / 10))))
                    (numberOfPayments (Fin 30)))"
  unfolding rate_65_term_30 using pow_rounded_ge_1[of "2263997062676043 / 2251799813685248" 360]
  by simp

theorem C5_sign_of_figures_witness:
  "b64 250000 = Fin 250000 \<and> (0::real) < 250000 \<and> (0::real) \<le> 65 / 10 \<and> (1::real) \<le> 30
   \<and> isFinite (numberOfPayments (Fin 30))
   \<and> js_le (Fin 1) (Math_pow pow_rounded (js_add (Fin 1) (monthlyRate (Fin (65 / 10))))
                      (numberOfPayments (Fin 30)))
   \<and> js_le (Fin 0) (monthlyPayment
        (calculate pow_rounded (Fin 250000) (Fin (65 / 10)) (Fin 30) InterestOnly))
   \<and> js_le (Fin 250000) (totalPayment
        (calculate pow_rounded (Fin 250000) (Fin (65 / 10)) (Fin 30) InterestOnly))
   \<and> \<not> js_lt (monthlyPayment
        (calculate pow_rounded (Fin 250000) (Fin (65 / 10)) (Fin 30) Repayment)) (Fin 0)
   \<and> \<not> js_lt (totalPayment
        (calculate pow_rounded (Fin 250000) (Fin (65 / 10)) (Fin 30) Repayment)) (Fin 0)"
proof -
  have h: "b64 250000 = Fin 250000" "(0::real) < 250000" "(0::real) \<le> 65 / 10"
    "(1::real) \<le> 30"
    by (simp_all add: b64_eval)
  have n: "isFinite (numberOfPayments (Fin 30))" by (simp add: rate_65_term_30)
  have r2: "round2 (Fin 250000) = Fin 250000" by (simp add: round2_def b64_eval)
  note t = C5_sign_of_figures[OF h n, of pow_rounded]
  from t have a: "js_le (Fin 0) (monthlyPayment
        (calculate pow_rounded (Fin 250000) (Fin (65 / 10)) (Fin 30) InterestOnly))"
    by blast
  from t have "js_le (round2 (Fin 250000)) (totalPayment
        (calculate pow_rounded (Fin 250000) (Fin (65 / 10)) (Fin 30) InterestOnly))"
    by blast
  then have b: "js_le (Fin 250000) (totalPayment
        (calculate pow_rounded (Fin 250000) (Fin (65 / 10)) (Fin 30) InterestOnly))"
    unfolding r2 .
  from t pow_rounded_65_30 have c:
    "\<not> js_lt (monthlyPayment
        (calculate pow_rounded (Fin 250000) (Fin (65 / 10)) (Fin 30) Repayment)) (Fin 0)"
    "\<not> js_lt (totalPayment
        (calculate pow_rounded (Fin 250000) (Fin (65 / 10)) (Fin 30) Repayment)) (Fin 0)"
    by blast+
  from h n pow_rounded_65_30 a b c show ?thesis by blast
qed

text \<open>
  C5 as the specification states it fails on the rounded total payment: the strings
  \<open>100.004\<close>, \<open>0\<close> and \<open>1\<close> pass validation, and the interest-only total payment
  returned for them is 100, which is below the principal.
\<close>

theorem C5_total_below_principal_counterexample:
  "validate ''100.004'' ''0'' ''1'' = []
   \<and> Number ''100.004'' = b64 (100004 / 1000)
   \<and> js_lt (Fin 100) (Number ''100.004'')
   \<and> totalPayment (calculate pow_rounded (Number ''100.004'') (Number ''0'') (Number ''1'') InterestOnly)
       = Fin 100
   \<and> \<not> js_le (Number ''100.004'')
          (totalPayment (calculate pow_rounded (Number ''100.004'') (Number ''0'') (Number ''1'')
             InterestOnly))"
proof -
  have a: "Number ''100.004'' = Fin (7037155892743111 / 70368744177664)"
    by (simp add: Number_eval b64_eval)
  have a': "b64 (100004 / 1000) = Fin (7037155892743111 / 70368744177664)"
    by (simp add: b64_eval)
  note n = Number_examples
  have v: "validate ''100.004'' ''0'' ''1'' = []"
    by (simp add: validate_def validateForm_def initial_def run_def Object_keys_def a n)
  have f: "figures pow_rounded (Fin (7037155892743111 / 70368744177664)) (Fin 0) (Fin 1) InterestOnly
             = (Fin 0, Fin (7037155892743111 / 70368744177664), Fin 0)"
    by (simp add: figures_def monthlyRate_def numberOfPayments_def Let_def b64_eval)
  have r: "round2 (Fin (7037155892743111 / 70368744177664)) = Fin 100"
    by (simp add: round2_def b64_eval)
  have t: "totalPayment (calculate pow_rounded (Fin (7037155892743111 / 70368744177664)) (Fin 0) (Fin 1)
             InterestOnly) = Fin 100"
    unfolding calculate_fields[OF f] by (simp add: r)
  show "validate ''100.004'' ''0'' ''1'' = []
   \<and> Number ''100.004'' = b64 (100004 / 1000)
   \<and> js_lt (Fin 100) (Number ''100.004'')
   \<and> totalPayment (calculate pow_rounded (Number ''100.004'') (Number ''0'') (Number ''1'') InterestOnly)
       = Fin 100
   \<and> \<not> js_le (Number ''100.004'')
          (totalPayment (calculate pow_rounded (Number ''100.004'') (Number ''0'') (Number ''1'')
             InterestOnly))"
    unfolding a a' n t using v[unfolded a n] by simp
qed

subsection \<open>The monthly payment as a function of the principal\<close>

lemma mul_pos_mono:
  assumes "0 < p1" and "p1 \<le> p2" and "js_le (Fin 0) c"
  shows "js_le (js_mul (Fin p1) c) (js_mul (Fin p2) c)"
proof (cases c)
  case (Fin v)
  with assms have "p1 * v \<le> p2 * v" by (simp add: mult_right_mono)
  from b64_mono[OF this] Fin show ?thesis by simp
qed (use assms in \<open>simp_all add: inf_of_sign_def\<close>)

lemma div_payments_mono:
  assumes "p1 \<le> p2" and "js_le (Fin 12) n"
  shows "js_le (js_div (Fin p1) n) (js_div (Fin p2) n)"
proof (cases n)
  case (Fin v)
  with assms(2) have "0 < v" by simp
  moreover have "js_le (Fin p1) (Fin p2)" using assms(1) by simp
  ultimately show ?thesis unfolding Fin by (intro div_const_mono)
qed (use assms in simp_all)

lemma div_nonneg_le_unless_NaN:
  assumes "js_le x y" and "js_le (Fin 0) d"
  shows "le_unless_NaN (js_div x d) (js_div y d)"
proof (cases d)
  case (Fin v)
  show ?thesis
  proof (cases "v = 0")
    case True
    with assms(1) show ?thesis unfolding Fin le_unless_NaN_def
      by (cases x; cases y) (auto simp: inf_of_sign_def)
  next
    case False
    with assms(2) Fin have "0 < v" by simp
    from div_const_mono[OF assms(1) this] show ?thesis
      unfolding Fin by (rule js_le_imp_le_unless_NaN)
  qed
next
  case PInf
  with assms(1) show ?thesis unfolding le_unless_NaN_def by (cases x; cases y) simp_all
qed (use assms in simp_all)

text \<open>The monthly payment before rounding, for two principals.\<close>

lemma monthly_figure_mono:
  assumes "0 < P1" and "P1 \<le> P2" and "0 \<le> a" and "1 \<le> y"
    and "ty = Repayment \<and> monthlyRate (Fin a) \<noteq> Fin 0
         \<longrightarrow> js_le (Fin 1) (Math_pow pw (js_add (Fin 1) (monthlyRate (Fin a)))
                               (numberOfPayments (Fin y)))"
  shows "le_unless_NaN (fst (figures pw (Fin P1) (Fin a) (Fin y) ty))
                       (fst (figures pw (Fin P2) (Fin a) (Fin y) ty))"
    and "ty = InterestOnly \<or> monthlyRate (Fin a) = Fin 0
         \<Longrightarrow> js_le (fst (figures pw (Fin P1) (Fin a) (Fin y) ty))
                   (fst (figures pw (Fin P2) (Fin a) (Fin y) ty))"
proof -
  define r where "r = monthlyRate (Fin a)"
  define n where "n = numberOfPayments (Fin y)"
  have r0: "js_le (Fin 0) r" unfolding r_def using assms(3) by (rule monthlyRate_nonneg)
  have n12: "js_le (Fin 12) n" unfolding n_def using assms(4) by (rule numberOfPayments_ge)
  have io: "js_le (fst (figures pw (Fin P1) (Fin a) (Fin y) InterestOnly))
                  (fst (figures pw (Fin P2) (Fin a) (Fin y) InterestOnly))"
    using mul_pos_mono[OF assms(1,2) r0]
    by (simp add: figures_def r_def Let_def)
  have lin: "js_le (fst (figures pw (Fin P1) (Fin a) (Fin y) Repayment))
                   (fst (figures pw (Fin P2) (Fin a) (Fin y) Repayment))" if "r = Fin 0"
    using div_payments_mono[OF assms(2) n12] that
    by (simp add: figures_def r_def[symmetric] n_def[symmetric] js_eq_Fin_0 Let_def)
  have ann: "le_unless_NaN (fst (figures pw (Fin P1) (Fin a) (Fin y) Repayment))
                           (fst (figures pw (Fin P2) (Fin a) (Fin y) Repayment))"
    if nz: "r \<noteq> Fin 0" and q: "js_le (Fin 1) (Math_pow pw (js_add (Fin 1) r) n)"
  proof -
    have "js_le (Fin 0) (js_mul r (Math_pow pw (js_add (Fin 1) r) n))"
      using r0 nz q by (rule mul_rate_pow_nonneg)
    from mul_pos_mono[OF assms(1,2) this]
    have u: "js_le (annuity_numerator pw (Fin P1) r n) (annuity_numerator pw (Fin P2) r n)"
      unfolding annuity_numerator_def .
    have d: "js_le (Fin 0) (annuity_denominator pw r n)"
      unfolding annuity_denominator_def using q by (rule sub_one_nonneg)
    from div_nonneg_le_unless_NaN[OF u d] nz show ?thesis
      by (simp add: figures_def r_def[symmetric] n_def[symmetric] js_eq_Fin_0 Let_def)
  qed
  show "le_unless_NaN (fst (figures pw (Fin P1) (Fin a) (Fin y) ty))
                      (fst (figures pw (Fin P2) (Fin a) (Fin y) ty))"
  proof (cases ty)
    case InterestOnly
    with io show ?thesis by (simp add: js_le_imp_le_unless_NaN)
  next
    case Repayment
    show ?thesis
    proof (cases "r = Fin 0")
      case True
      from lin[OF True] Repayment show ?thesis by (simp add: js_le_imp_le_unless_NaN)
    next
      case False
      with assms(5) Repayment have "js_le (Fin 1) (Math_pow pw (js_add (Fin 1) r) n)"
        by (simp add: r_def n_def)
      from ann[OF False this] Repayment show ?thesis by simp
    qed
  qed
  show "js_le (fst (figures pw (Fin P1) (Fin a) (Fin y) ty))
              (fst (figures pw (Fin P2) (Fin a) (Fin y) ty))"
    if "ty = InterestOnly \<or> monthlyRate (Fin a) = Fin 0"
  proof (cases ty)
    case InterestOnly
    with io show ?thesis by simp
  next
    case Repayment
    with that have "r = Fin 0" by (simp add: r_def)
    from lin[OF this] Repayment show ?thesis by simp
  qed
qed

lemma monthlyPayment_calculate:
  "monthlyPayment (calculate pw P a y ty) = round2 (fst (figures pw P a y ty))"
  by (simp add: calculate_def split: prod.splits)

text \<open>
  C6, as the code has it. With rate \<open>a \<ge> 0\<close> and term \<open>y \<ge> 1\<close> fixed and principals
  \<open>0 < P1 < P2\<close>, the monthly payment returned for \<open>P2\<close> is never less than the one
  returned for \<open>P1\<close>: it is greater than or equal to it in the interest-only branch
  and in the repayment branch at rate 0, and in the repayment branch at a positive
  rate unless one of the two is \<open>NaN\<close>, provided \<open>Math.pow\<close> returns at least 1. The
  same holds of the monthly payment before rounding. The order is not strict.
\<close>

theorem C6_monthly_payment_monotone:
  assumes "0 < P1" and "P1 < P2" and "0 \<le> a" and "1 \<le> y"
    and "ty = Repayment \<and> monthlyRate (Fin a) \<noteq> Fin 0
         \<longrightarrow> js_le (Fin 1) (Math_pow pw (js_add (Fin 1) (monthlyRate (Fin a)))
                               (numberOfPayments (Fin y)))"
  shows "\<not> js_lt (monthlyPayment (calculate pw (Fin P2) (Fin a) (Fin y) ty))
                 (monthlyPayment (calculate pw (Fin P1) (Fin a) (Fin y) ty))
       \<and> le_unless_NaN (monthlyPayment (calculate pw (Fin P1) (Fin a) (Fin y) ty))
                       (monthlyPayment (calculate pw (Fin P2) (Fin a) (Fin y) ty))
       \<and> (ty = InterestOnly \<or> monthlyRate (Fin a) = Fin 0
            \<longrightarrow> js_le (monthlyPayment (calculate pw (Fin P1) (Fin a) (Fin y) ty))
                      (monthlyPayment (calculate pw (Fin P2) (Fin a) (Fin y) ty)))
       \<and> le_unless_NaN (fst (figures pw (Fin P1) (Fin a) (Fin y) ty))
                       (fst (figures pw (Fin P2) (Fin a) (Fin y) ty))
       \<and> (ty = InterestOnly \<or> monthlyRate (Fin a) = Fin 0
            \<longrightarrow> js_le (fst (figures pw (Fin P1) (Fin a) (Fin y) ty))
                      (fst (figures pw (Fin P2) (Fin a) (Fin y) ty)))"
proof -
  have le: "P1 \<le> P2" using assms(2) by simp
  note m = monthly_figure_mono[OF assms(1) le assms(3,4,5)]
  from round2_le_unless_NaN[OF m(1)]
  have a: "le_unless_NaN (monthlyPayment (calculate pw (Fin P1) (Fin a) (Fin y) ty))
                         (monthlyPayment (calculate pw (Fin P2) (Fin a) (Fin y) ty))"
    unfolding monthlyPayment_calculate .
  from le_unless_NaN_not_lt[OF a]
  have b: "\<not> js_lt (monthlyPayment (calculate pw (Fin P2) (Fin a) (Fin y) ty))
                   (monthlyPayment (calculate pw (Fin P1) (Fin a) (Fin y) ty))" .
  have c: "js_le (monthlyPayment (calculate pw (Fin P1) (Fin a) (Fin y) ty))
                 (monthlyPayment (calculate pw (Fin P2) (Fin a) (Fin y) ty))"
    if "ty = InterestOnly \<or> monthlyRate (Fin a) = Fin 0"
    unfolding monthlyPayment_calculate using m(2)[OF that] by (rule round2_mono)
  from a b c m show ?thesis by blast
qed

theorem C6_monthly_payment_monotone_witness:
  "(0::real) < 100000 \<and> (100000::real) < 200000 \<and> (0::real) \<le> 65 / 10 \<and> (1::real) \<le> 30
   \<and> js_le (Fin 1) (Math_pow pow_rounded (js_add (Fin 1) (monthlyRate (Fin (65 / 10))))
                      (numberOfPayments (Fin 30)))
   \<and> \<not> js_lt (monthlyPayment (calculate pow_rounded (Fin 200000) (Fin (65 / 10)) (Fin 30)
                                  Repayment))
              (monthlyPayment (calculate pow_rounded (Fin 100000) (Fin (65 / 10)) (Fin 30)
                                  Repayment))
   \<and> js_le (monthlyPayment (calculate pow_rounded (Fin 100000) (Fin (65 / 10)) (Fin 30)
                               InterestOnly))
            (monthlyPayment (calculate pow_rounded (Fin 200000) (Fin (65 / 10)) (Fin 30)
                               InterestOnly))"
proof -
  have h: "(0::real) < 100000" "(100000::real) < 200000" "(0::real) \<le> 65 / 10"
    "(1::real) \<le> 30"
    by simp_all
  note q = pow_rounded_65_30
  from C6_monthly_payment_monotone[OF h, of Repayment pow_rounded] q
  have a: "\<not> js_lt (monthlyPayment (calculate pow_rounded (Fin 200000) (Fin (65 / 10)) (Fin 30)
                                  Repayment))
              (monthlyPayment (calculate pow_rounded (Fin 100000) (Fin (65 / 10)) (Fin 30)
                                  Repayment))"
    by blast
  from C6_monthly_payment_monotone[OF h, of InterestOnly pow_rounded]
  have b: "js_le (monthlyPayment (calculate pow_rounded (Fin 100000) (Fin (65 / 10)) (Fin 30)
                               InterestOnly))
            (monthlyPayment (calculate pow_rounded (Fin 200000) (Fin (65 / 10)) (Fin 30)
                               InterestOnly))"
    by blast
  from h q a b show ?thesis by blast
qed

text \<open>
  C6 as the specification states it fails on the returned values, where the order
  is not strict. The principals \<open>1\<close> and \<open>1.01\<close> at rate 0 over one year both give the
  repayment monthly payment 0.08; the principals 1 and 2 at rate 6.5 over 30 years
  both give the interest-only monthly payment 0.01.
\<close>

theorem C6_strictly_increasing_counterexample:
  "validate ''1'' ''0'' ''1'' = [] \<and> validate ''1.01'' ''0'' ''1'' = []
   \<and> js_lt (Number ''1'') (Number ''1.01'')
   \<and> monthlyPayment (calculate pow_rounded (Number ''1'') (Number ''0'') (Number ''1'') Repayment)
       = b64 (8 / 100)
   \<and> monthlyPayment (calculate pow_rounded (Number ''1.01'') (Number ''0'') (Number ''1'') Repayment)
       = b64 (8 / 100)
   \<and> \<not> js_lt (monthlyPayment (calculate pow_rounded (Number ''1'') (Number ''0'') (Number ''1'')
                                  Repayment))
              (monthlyPayment (calculate pow_rounded (Number ''1.01'') (Number ''0'') (Number ''1'')
                                  Repayment))
   \<and> monthlyPayment (calculate pow_rounded (Fin 1) (Fin (65 / 10)) (Fin 30) InterestOnly)
       = b64 (1 / 100)
   \<and> monthlyPayment (calculate pow_rounded (Fin 2) (Fin (65 / 10)) (Fin 30) InterestOnly)
       = b64 (1 / 100)
   \<and> \<not> js_lt (monthlyPayment (calculate pow_rounded (Fin 1) (Fin (65 / 10)) (Fin 30) InterestOnly))
              (monthlyPayment (calculate pow_rounded (Fin 2) (Fin (65 / 10)) (Fin 30) InterestOnly))"
proof -
  have a: "Number ''1.01'' = Fin (4548635623644201 / 4503599627370496)"
    by (simp add: Number_eval b64_eval)
  note n = Number_examples
  have v: "validate ''1'' ''0'' ''1'' = []" "validate ''1.01'' ''0'' ''1'' = []"
    by (simp_all add: validate_def validateForm_def initial_def run_def Object_keys_def a n)
  have c8: "b64 (8 / 100) = Fin (5764607523034235 / 72057594037927936)"
    and c1: "b64 (1 / 100) = Fin (5764607523034235 / 576460752303423488)"
    by (simp_all add: b64_eval)
  have m1: "fst (figures pow_rounded (Fin 1) (Fin 0) (Fin 1) Repayment)
              = Fin (6004799503160661 / 72057594037927936)"
    by (simp add: figures_def monthlyRate_def numberOfPayments_def js_eq_def Let_def b64_eval)
  have m2: "fst (figures pow_rounded (Fin (4548635623644201 / 4503599627370496)) (Fin 0) (Fin 1)
                   Repayment)
              = Fin (1516211874548067 / 18014398509481984)"
    by (simp add: figures_def monthlyRate_def numberOfPayments_def js_eq_def Let_def b64_eval)
  have r1: "round2 (Fin (6004799503160661 / 72057594037927936))
              = Fin (5764607523034235 / 72057594037927936)"
    and r2: "round2 (Fin (1516211874548067 / 18014398509481984))
              = Fin (5764607523034235 / 72057594037927936)"
    by (simp_all add: round2_def b64_eval)
  have i1: "fst (figures pow_rounded (Fin 1) (Fin (65 / 10)) (Fin 30) InterestOnly)
              = Fin (390311967705443 / 72057594037927936)"
    and i2: "fst (figures pow_rounded (Fin 2) (Fin (65 / 10)) (Fin 30) InterestOnly)
              = Fin (390311967705443 / 36028797018963968)"
    unfolding figures_def Let_def rate_65_term_30 by (simp_all add: b64_eval)
  have s1: "round2 (Fin (390311967705443 / 72057594037927936))
              = Fin (5764607523034235 / 576460752303423488)"
    and s2: "round2 (Fin (390311967705443 / 36028797018963968))
              = Fin (5764607523034235 / 576460752303423488)"
    by (simp_all add: round2_def b64_eval)
  show "validate ''1'' ''0'' ''1'' = [] \<and> validate ''1.01'' ''0'' ''1'' = []
   \<and> js_lt (Number ''1'') (Number ''1.01'')
   \<and> monthlyPayment (calculate pow_rounded (Number ''1'') (Number ''0'') (Number ''1'') Repayment)
       = b64 (8 / 100)
   \<and> monthlyPayment (calculate pow_rounded (Number ''1.01'') (Number ''0'') (Number ''1'') Repayment)
       = b64 (8 / 100)
   \<and> \<not> js_lt (monthlyPayment (calculate pow_rounded (Number ''1'') (Number ''0'') (Number ''1'')
                                  Repayment))
              (monthlyPayment (calculate pow_rounded (Number ''1.01'') (Number ''0'') (Number ''1'')
                                  Repayment))
   \<and> monthlyPayment (calculate pow_rounded (Fin 1) (Fin (65 / 10)) (Fin 30) InterestOnly)
       = b64 (1 / 100)
   \<and> monthlyPayment (calculate pow_rounded (Fin 2) (Fin (65 / 10)) (Fin 30) InterestOnly)
       = b64 (1 / 100)
   \<and> \<not> js_lt (monthlyPayment (calculate pow_rounded (Fin 1) (Fin (65 / 10)) (Fin 30) InterestOnly))
              (monthlyPayment (calculate pow_rounded (Fin 2) (Fin (65 / 10)) (Fin 30) InterestOnly))"
    unfolding monthlyPayment_calculate a n m1 m2 r1 r2 i1 i2 s1 s2 c8 c1
    using v[unfolded a n] by simp
qed

end
